theory Spec2Isabelle
  imports Main "HOL-Library.Word"
begin

unbundle bit_operations_syntax

section \<open>GE dump playback (GPU/Debugger/Playback.cpp)\<close>

text \<open>
  A shallow embedding of the replay engine: the buffer mapper \<open>BufMapping\<close>, the
  executor \<open>DumpExecute\<close>, the loader and the mailbox between the replay thread and
  the main context.

  Everything the code does to the emulated machine (allocator calls, writes to emulated
  memory, operations handed to the main context) is recorded, in order, in a list of
  events: the world. What the machine answers (the address an allocation returns, the
  list id the engine returns) is read from oracles over that history, collected in the
  record \<open>sys\<close>, since the allocator, the memory map and the graphics engine are not part
  of this file.
\<close>

subsection \<open>Basic types\<close>

type_synonym u8 = "8 word"
type_synonym u16 = "16 word"
type_synonym u32 = "32 word"

datatype OpType =
    OpType_None
  | OpType_UpdateStallAddr
  | OpType_EnqueueList
  | OpType_ListSync
  | OpType_ReapplyGfxState
  | OpType_Done

record Operation =
  op_type :: OpType
  listID :: u32
  param :: u32

text \<open>\<open>Operation{ t, a, b }\<close>; members left out of the braces are zero.\<close>

definition mk_Operation :: "OpType \<Rightarrow> u32 \<Rightarrow> u32 \<Rightarrow> Operation" where
  "mk_Operation t a b = \<lparr>op_type = t, listID = a, param = b\<rparr>"

datatype ReplayResult = ReplayResult_Done | ReplayResult_Break | ReplayResult_Error

subsection \<open>The world: effects and oracles\<close>

datatype event =
    Ev_Alloc u32 bool string u32
      \<comment> \<open>\<open>userMemory.Alloc(size, fromTop, tag)\<close> and the value it returned\<close>
  | Ev_Free u32
      \<comment> \<open>\<open>userMemory.Free(ptr)\<close>\<close>
  | Ev_MemcpyPushbuf u32 nat u32
      \<comment> \<open>\<open>Memory::MemcpyUnchecked(dst, pushbuf_.data() + src, n)\<close>\<close>
  | Ev_MemcpyWords u32 "u32 list"
      \<comment> \<open>\<open>Memory::MemcpyUnchecked(dst, execListQueue.data(), 4 * n)\<close>\<close>
  | Ev_Write_U32 u32 u32
      \<comment> \<open>\<open>Memory::Write_U32(value, addr)\<close>, also a store through \<open>ops[i]\<close>\<close>
  | Ev_NotifyMemInfo u32 u32 string
  | Ev_OnMain Operation
      \<comment> \<open>\<open>ExecuteOnMain(op)\<close>: the operation is handed to the main context\<close>
  | Ev_Downcount u32
      \<comment> \<open>the cycle adjustment of \<open>SyncStall\<close> against \<open>gpu->GetListTicks(id)\<close>\<close>
  | Ev_EnableInterrupts bool
  | Ev_gstate_Restore u32
  | Ev_PerformMemorySet u32 u8 u32
  | Ev_PerformWriteColorFromMemory u32 u32
  | Ev_DisplaySetFramebuf u32 u32 u32 u32
  | Ev_SetAddrTranslation u32
  | Ev_ERROR_LOG string

type_synonym world = "event list"

text \<open>
  The collaborators, and the constants of \<open>GPU/ge_constants.h\<close>, which the sources at
  hand use but do not declare: they are parameters of every definition below.
\<close>

record sys =
  userMemory_Alloc :: "world \<Rightarrow> u32 \<Rightarrow> bool \<Rightarrow> u32"
  ExecuteOnMain_retVal :: "world \<Rightarrow> Operation \<Rightarrow> u32"
  gstate_transfersrcw :: "world \<Rightarrow> u32"
  Memory_IsValidRange :: "u32 \<Rightarrow> u32 \<Rightarrow> bool"
  Memory_IsVRAMAddress :: "u32 \<Rightarrow> bool"
  bSoftwareRendering :: bool
  gpu_present :: bool
  GE_CMD_NOP :: u32
  GE_CMD_VADDR :: u32
  GE_CMD_IADDR :: u32
  GE_CMD_JUMP :: u32
  GE_CMD_END :: u32
  GE_CMD_SIGNAL :: u32
  GE_CMD_FINISH :: u32
  GE_CMD_BASE :: u32
  GE_CMD_TEXADDR0 :: u32
  GE_CMD_TEXADDR7 :: u32
  GE_CMD_TEXBUFWIDTH0 :: u32
  GE_CMD_TEXBUFWIDTH7 :: u32
  GE_CMD_CLUTADDR :: u32
  GE_CMD_CLUTADDRUPPER :: u32
  GE_CMD_TRANSFERSRC :: u32

subsection \<open>BufMapping\<close>

definition SLAB_SIZE :: u32 where
  "SLAB_SIZE = 1 * 1024 * 1024"

definition SLAB_COUNT :: nat where
  "SLAB_COUNT = 10"

definition EXTRA_COUNT :: nat where
  "EXTRA_COUNT = 10"

record SlabInfo =
  slab_psp_pointer :: u32
  slab_buf_pointer :: u32
  slab_last_used :: int

record ExtraInfo =
  extra_psp_pointer :: u32
  extra_buf_pointer :: u32
  extra_size :: u32

text \<open>
  A name cannot end in an underscore here, so the members of the source carry the name
  of their struct instead: \<open>bm_slabs\<close> is \<open>slabs_\<close>, \<open>slab_psp_pointer\<close> is
  \<open>SlabInfo::psp_pointer_\<close>, \<open>extra_size\<close> is \<open>ExtraInfo::size_\<close>, and so on.

  The generation counter is a static member; one mapper exists at a time and \<open>Reset\<close>
  zeroes the counter, so it is kept with the mapper's state. It is a C++ \<open>int\<close> that
  only counts slab setups; it is modelled as an unbounded integer (an overflow would need
  more than \<open>2^31\<close> setups and is undefined in the source).
\<close>

record BufMapping =
  bm_slabGeneration :: int
  bm_slabs :: "SlabInfo list"
  bm_lastSlab :: nat
  bm_extraOffset :: nat
  bm_extra :: "ExtraInfo list"

definition Slab_Matches :: "SlabInfo \<Rightarrow> u32 \<Rightarrow> bool" where
  "Slab_Matches s bufpos \<longleftrightarrow> slab_buf_pointer s = bufpos \<and> slab_psp_pointer s \<noteq> 0"

definition Slab_Ptr :: "int \<Rightarrow> SlabInfo \<Rightarrow> u32 \<Rightarrow> u32 \<times> SlabInfo" where
  "Slab_Ptr gen s bufpos =
     (slab_psp_pointer s + (bufpos - slab_buf_pointer s), s\<lparr>slab_last_used := gen\<rparr>)"

definition Slab_Age :: "int \<Rightarrow> SlabInfo \<Rightarrow> int" where
  "Slab_Age gen s =
     (if slab_psp_pointer s = 0 then 2147483647 else gen - slab_last_used s)"

definition Slab_Alloc :: "sys \<Rightarrow> SlabInfo \<Rightarrow> world \<Rightarrow> bool \<times> SlabInfo \<times> world" where
  "Slab_Alloc S s w =
     (let r = userMemory_Alloc S w SLAB_SIZE False;
          p = (if r = - 1 then 0 else r)
      in (p \<noteq> 0, s\<lparr>slab_psp_pointer := p\<rparr>, w @ [Ev_Alloc SLAB_SIZE False ''Slab'' r]))"

definition Slab_Free :: "SlabInfo \<Rightarrow> world \<Rightarrow> SlabInfo \<times> world" where
  "Slab_Free s w =
     (if slab_psp_pointer s \<noteq> 0
      then (s\<lparr>slab_psp_pointer := 0, slab_buf_pointer := 0, slab_last_used := 0\<rparr>,
            w @ [Ev_Free (slab_psp_pointer s)])
      else (s, w))"

text \<open>
  \<open>Setup\<close> returns its success, the generation counter afterwards, the slab and the
  world. The size of the copy is computed in \<open>u32\<close>, as in the source.
\<close>

definition Slab_Setup ::
  "sys \<Rightarrow> u8 list \<Rightarrow> int \<Rightarrow> SlabInfo \<Rightarrow> u32 \<Rightarrow> world \<Rightarrow> bool \<times> int \<times> SlabInfo \<times> world" where
  "Slab_Setup S pushbuf gen s bufpos w =
     (case (if slab_psp_pointer s = 0 then Slab_Alloc S s w else (True, s, w)) of
        (ok, s1, w1) \<Rightarrow>
          if \<not> ok then (False, gen, s1, w1)
          else
            let sz = min SLAB_SIZE (word_of_nat (length pushbuf) - bufpos);
                w2 = w1 @ [Ev_MemcpyPushbuf (slab_psp_pointer s1) (unat bufpos) sz];
                gen' = gen + 1
            in (True, gen', s1\<lparr>slab_buf_pointer := bufpos, slab_last_used := gen'\<rparr>, w2))"

definition Extra_Matches :: "ExtraInfo \<Rightarrow> u32 \<Rightarrow> u32 \<Rightarrow> bool" where
  "Extra_Matches e bufpos sz \<longleftrightarrow>
     extra_buf_pointer e = bufpos \<and> extra_psp_pointer e \<noteq> 0 \<and> extra_size e \<ge> sz"

definition Extra_Free :: "ExtraInfo \<Rightarrow> world \<Rightarrow> ExtraInfo \<times> world" where
  "Extra_Free e w =
     (if extra_psp_pointer e \<noteq> 0
      then (e\<lparr>extra_psp_pointer := 0, extra_buf_pointer := 0\<rparr>,
            w @ [Ev_Free (extra_psp_pointer e)])
      else (e, w))"

definition Extra_Alloc ::
  "sys \<Rightarrow> ExtraInfo \<Rightarrow> u32 \<Rightarrow> u32 \<Rightarrow> world \<Rightarrow> bool \<times> ExtraInfo \<times> world" where
  "Extra_Alloc S e bufpos sz w =
     (case Extra_Free e w of
        (e1, w1) \<Rightarrow>
          let r = userMemory_Alloc S w1 sz False;
              w2 = w1 @ [Ev_Alloc sz False ''Straddle extra'' r];
              p = (if r = - 1 then 0 else r)
          in if p = 0 then (False, e1\<lparr>extra_psp_pointer := 0\<rparr>, w2)
             else (True,
                   e1\<lparr>extra_psp_pointer := p, extra_buf_pointer := bufpos, extra_size := sz\<rparr>,
                   w2 @ [Ev_MemcpyPushbuf p (unat bufpos) sz]))"

text \<open>
  The loop of \<open>MapSlab\<close> over \<open>i = 0 .. SLAB_COUNT - 1\<close>: it returns at the first slab
  that matches, and otherwise keeps in \<open>best\<close> the slab of greatest age seen so far.
\<close>

datatype scan = Hit nat | Miss nat

fun MapSlab_scan :: "int \<Rightarrow> SlabInfo list \<Rightarrow> u32 \<Rightarrow> nat \<Rightarrow> nat list \<Rightarrow> scan" where
  "MapSlab_scan gen slabs slab_pos best [] = Miss best"
| "MapSlab_scan gen slabs slab_pos best (i # is) =
     (if Slab_Matches (slabs ! i) slab_pos then Hit i
      else MapSlab_scan gen slabs slab_pos
             (if Slab_Age gen (slabs ! i) > Slab_Age gen (slabs ! best) then i else best) is)"

definition MapSlab ::
  "sys \<Rightarrow> u8 list \<Rightarrow> (world \<Rightarrow> world) \<Rightarrow> u32 \<Rightarrow> BufMapping \<Rightarrow> world
     \<Rightarrow> u32 \<times> BufMapping \<times> world" where
  "MapSlab S pushbuf flush bufpos m w =
     (let slab_pos = (bufpos div SLAB_SIZE) * SLAB_SIZE in
      case MapSlab_scan (bm_slabGeneration m) (bm_slabs m) slab_pos 0 [0..<SLAB_COUNT] of
        Hit i \<Rightarrow>
          (case Slab_Ptr (bm_slabGeneration m) (bm_slabs m ! i) bufpos of
             (p, s') \<Rightarrow> (p, m\<lparr>bm_slabs := (bm_slabs m)[i := s']\<rparr>, w))
      | Miss best \<Rightarrow>
          (case Slab_Setup S pushbuf (bm_slabGeneration m) (bm_slabs m ! best) slab_pos (flush w) of
             (ok, gen', s1, w1) \<Rightarrow>
               if \<not> ok then (0, m\<lparr>bm_slabs := (bm_slabs m)[best := s1]\<rparr>, w1)
               else
                 (case Slab_Ptr gen' s1 bufpos of
                    (p, s2) \<Rightarrow>
                      (p, m\<lparr>bm_slabGeneration := gen', bm_slabs := (bm_slabs m)[best := s2],
                             bm_lastSlab := best\<rparr>, w1))))"

text \<open>The first loop of \<open>MapExtra\<close>: the first entry that matches, if any.\<close>

fun MapExtra_scan :: "ExtraInfo list \<Rightarrow> u32 \<Rightarrow> u32 \<Rightarrow> nat list \<Rightarrow> nat option" where
  "MapExtra_scan extra bufpos sz [] = None"
| "MapExtra_scan extra bufpos sz (i # is) =
     (if Extra_Matches (extra ! i) bufpos sz then Some i
      else MapExtra_scan extra bufpos sz is)"

text \<open>The loop that frees every extra entry.\<close>

fun Extra_FreeAll :: "nat list \<Rightarrow> ExtraInfo list \<Rightarrow> world \<Rightarrow> ExtraInfo list \<times> world" where
  "Extra_FreeAll [] extra w = (extra, w)"
| "Extra_FreeAll (i # is) extra w =
     (case Extra_Free (extra ! i) w of
        (e', w') \<Rightarrow> Extra_FreeAll is (extra[i := e']) w')"

definition MapExtra ::
  "sys \<Rightarrow> u8 list \<Rightarrow> (world \<Rightarrow> world) \<Rightarrow> u32 \<Rightarrow> u32 \<Rightarrow> BufMapping \<Rightarrow> world
     \<Rightarrow> u32 \<times> BufMapping \<times> world" where
  "MapExtra S pushbuf flush bufpos sz m w =
     (case MapExtra_scan (bm_extra m) bufpos sz [0..<EXTRA_COUNT] of
        Some i \<Rightarrow> (extra_psp_pointer (bm_extra m ! i), m, w)
      | None \<Rightarrow>
          (let i = bm_extraOffset m;
               m1 = m\<lparr>bm_extraOffset := (bm_extraOffset m + 1) mod EXTRA_COUNT\<rparr>
           in case Extra_Alloc S (bm_extra m1 ! i) bufpos sz (flush w) of
                (ok, e1, w1) \<Rightarrow>
                  if ok then (extra_psp_pointer e1, m1\<lparr>bm_extra := (bm_extra m1)[i := e1]\<rparr>, w1)
                  else
                    (case Extra_FreeAll [0..<EXTRA_COUNT] ((bm_extra m1)[i := e1]) w1 of
                       (extra2, w2) \<Rightarrow>
                         (case Extra_Alloc S (extra2 ! i) bufpos sz w2 of
                            (ok2, e2, w3) \<Rightarrow>
                              if \<not> ok2 then (0, m1\<lparr>bm_extra := extra2[i := e2]\<rparr>, w3)
                              else (extra_psp_pointer e2,
                                    m1\<lparr>bm_extra := extra2[i := e2]\<rparr>, w3)))))"

text \<open>
  \<open>Map\<close>. The two slab numbers are at most 4095, so the conversion to \<open>int\<close> in the
  source loses nothing; \<open>bufpos + sz - 1\<close> wraps in \<open>u32\<close>. The product
  \<open>slab1 * SLAB_SIZE\<close> is a product of two \<open>int\<close> in the source, converted to \<open>u32\<close> for
  \<open>Matches\<close>; it is taken in \<open>u32\<close> here, which is the same value for every position below
  \<open>2 ^ 31\<close> (a pushbuffer of two gigabytes), where the \<open>int\<close> product does not overflow.
\<close>

definition Map ::
  "sys \<Rightarrow> u8 list \<Rightarrow> (world \<Rightarrow> world) \<Rightarrow> u32 \<Rightarrow> u32 \<Rightarrow> BufMapping \<Rightarrow> world
     \<Rightarrow> u32 \<times> BufMapping \<times> world" where
  "Map S pushbuf flush bufpos sz m w =
     (let slab1 = bufpos div SLAB_SIZE;
          slab2 = (bufpos + sz - 1) div SLAB_SIZE
      in if slab1 = slab2 then
           (if Slab_Matches (bm_slabs m ! bm_lastSlab m) (slab1 * SLAB_SIZE) then
              (case Slab_Ptr (bm_slabGeneration m) (bm_slabs m ! bm_lastSlab m) bufpos of
                 (p, s') \<Rightarrow> (p, m\<lparr>bm_slabs := (bm_slabs m)[bm_lastSlab m := s']\<rparr>, w))
            else MapSlab S pushbuf flush bufpos m w)
         else MapExtra S pushbuf flush bufpos sz m w)"

text \<open>The loops of \<open>Reset\<close>.\<close>

fun Slab_FreeAll :: "nat list \<Rightarrow> SlabInfo list \<Rightarrow> world \<Rightarrow> SlabInfo list \<times> world" where
  "Slab_FreeAll [] slabs w = (slabs, w)"
| "Slab_FreeAll (i # is) slabs w =
     (case Slab_Free (slabs ! i) w of
        (s', w') \<Rightarrow> Slab_FreeAll is (slabs[i := s']) w')"

definition Reset :: "BufMapping \<Rightarrow> world \<Rightarrow> BufMapping \<times> world" where
  "Reset m w =
     (case Slab_FreeAll [0..<SLAB_COUNT] (bm_slabs m) w of
        (slabs', w1) \<Rightarrow>
          (case Extra_FreeAll [0..<EXTRA_COUNT] (bm_extra m) w1 of
             (extra', w2) \<Rightarrow>
               (m\<lparr>bm_slabGeneration := 0, bm_extraOffset := 0, bm_slabs := slabs', bm_extra := extra'\<rparr>,
                w2)))"

text \<open>A freshly constructed mapper: every member zero.\<close>

definition BufMapping_new :: BufMapping where
  "BufMapping_new =
     \<lparr>bm_slabGeneration = 0,
      bm_slabs = replicate SLAB_COUNT
                 \<lparr>slab_psp_pointer = 0, slab_buf_pointer = 0, slab_last_used = 0\<rparr>,
      bm_lastSlab = 0,
      bm_extraOffset = 0,
      bm_extra = replicate EXTRA_COUNT
                 \<lparr>extra_psp_pointer = 0, extra_buf_pointer = 0, extra_size = 0\<rparr>\<rparr>"

subsection \<open>Reading the pushbuffer\<close>

text \<open>
  The handlers read their payload through \<open>pushbuf_.data() + ptr\<close> with no bound check;
  a read past the end of the vector is outside what C++ defines. Here such a read yields
  zero bytes. Multi-byte fields are little-endian (\<open>u32_le\<close>), offsets are byte offsets
  from the start of the vector.
\<close>

definition read_u8 :: "u8 list \<Rightarrow> nat \<Rightarrow> u8" where
  "read_u8 pushbuf off = (if off < length pushbuf then pushbuf ! off else 0)"

definition read_u32 :: "u8 list \<Rightarrow> nat \<Rightarrow> u32" where
  "read_u32 pushbuf off =
     ucast (read_u8 pushbuf off)
       OR push_bit 8 (ucast (read_u8 pushbuf (off + 1)))
       OR push_bit 16 (ucast (read_u8 pushbuf (off + 2)))
       OR push_bit 24 (ucast (read_u8 pushbuf (off + 3)))"

subsection \<open>Commands\<close>

text \<open>
  The enumerators are those the switch of \<open>DumpExecute::Run\<close> names; their declaration
  (\<open>GPU/Debugger/RecordFormat.h\<close>) is not among the sources. \<open>UNKNOWN v\<close> stands for a
  recorded type value \<open>v\<close> that is none of them, which the switch sends to \<open>default\<close>.
\<close>

datatype CommandType =
    INIT | REGISTERS | VERTICES | INDICES | CLUTADDR | CLUT | TRANSFERSRC
  | MEMSET | MEMCPYDEST | MEMCPYDATA | EDRAMTRANS
  | TEXTURE0 | TEXTURE1 | TEXTURE2 | TEXTURE3 | TEXTURE4 | TEXTURE5 | TEXTURE6 | TEXTURE7
  | FRAMEBUF0 | FRAMEBUF1 | FRAMEBUF2 | FRAMEBUF3 | FRAMEBUF4 | FRAMEBUF5 | FRAMEBUF6 | FRAMEBUF7
  | DISPLAY
  | UNKNOWN u32

record Command =
  cmd_type :: CommandType
  cmd_ptr :: u32
  cmd_sz :: u32

subsection \<open>DumpExecute\<close>

text \<open>
  The members of the executor; \<open>pushbuf_\<close> and \<open>commands_\<close> are constant references and
  are passed as arguments. \<open>lastBufw\<close>, \<open>lastTex\<close>, \<open>lastBase\<close>, \<open>mapping\<close>, \<open>version\<close> and
  \<open>resumeIndex\<close> are the members written with a trailing underscore in the source.
\<close>

record DumpExecute =
  execMemcpyDest :: u32
  execClutAddr :: u32
  execClutFlags :: u32
  execListBuf :: u32
  execListPos :: u32
  execListID :: u32
  execListQueue :: "u32 list"
  lastBufw :: "u16 list"
  lastTex :: "u32 list"
  lastBase :: u32
  mapping :: BufMapping
  version :: u32
  resumeIndex :: int

definition LIST_BUF_SIZE :: u32 where
  "LIST_BUF_SIZE = 256 * 1024"

definition DumpExecute_new :: "u32 \<Rightarrow> DumpExecute" where
  "DumpExecute_new v =
     \<lparr>execMemcpyDest = 0, execClutAddr = 0, execClutFlags = 0,
      execListBuf = 0, execListPos = 0, execListID = 0, execListQueue = [],
      lastBufw = replicate 8 0, lastTex = replicate 8 0, lastBase = 0,
      mapping = BufMapping_new, version = v, resumeIndex = - 1\<rparr>"

text \<open>
  \<open>ExecuteOnMain\<close> as the executor sees it: the operation goes to the main context, and
  the value that context left in \<open>g_retVal\<close> comes back.
\<close>

definition ExecuteOnMain :: "sys \<Rightarrow> Operation \<Rightarrow> world \<Rightarrow> u32 \<times> world" where
  "ExecuteOnMain S op w = (ExecuteOnMain_retVal S w op, w @ [Ev_OnMain op])"

definition SyncStall :: "DumpExecute \<Rightarrow> world \<Rightarrow> world" where
  "SyncStall D w =
     (if execListBuf D = 0 then w
      else w @ [Ev_OnMain (mk_Operation OpType_UpdateStallAddr (execListID D) (execListPos D)),
                Ev_Downcount (execListID D)])"

text \<open>
  The loop of \<open>Registers\<close> over the words just copied to \<open>writePos\<close>. \<open>ops[i]\<close> is read
  back from emulated memory, where the copy from the pushbuffer has just put word \<open>i\<close> of
  the payload; a store through \<open>ops[i]\<close> is a write of that word of emulated memory.
\<close>

fun Registers_ops ::
  "sys \<Rightarrow> u8 list \<Rightarrow> u32 \<Rightarrow> u32 \<Rightarrow> u32 list \<Rightarrow> nat list \<Rightarrow> DumpExecute \<Rightarrow> world
     \<Rightarrow> DumpExecute \<times> world" where
  "Registers_ops S pushbuf ptr writePos lastTexHigh [] D w = (D, w)"
| "Registers_ops S pushbuf ptr writePos lastTexHigh (i # is) D w =
     (let op = read_u32 pushbuf (unat ptr + 4 * i);
          addr = writePos + 4 * word_of_nat i;
          cmd = drop_bit 24 op
      in case (if GE_CMD_TEXBUFWIDTH0 S \<le> cmd \<and> cmd \<le> GE_CMD_TEXBUFWIDTH7 S then
                 (let level = unat (cmd - GE_CMD_TEXBUFWIDTH0 S);
                      bufw = (ucast op :: u16);
                      v = (if bufw = lastBufw D ! level then push_bit 24 (GE_CMD_NOP S)
                           else (lastTexHigh ! level) OR ucast bufw)
                  in (D\<lparr>lastBufw := (lastBufw D)[level := bufw]\<rparr>, w @ [Ev_Write_U32 v addr]))
               else (D, w)) of
           (D1, w1) \<Rightarrow>
             (let w2 = (if GE_CMD_TEXADDR0 S \<le> cmd \<and> cmd \<le> GE_CMD_TEXADDR7 S
                        then w1 @ [Ev_Write_U32 (push_bit 24 (GE_CMD_NOP S)) addr] else w1);
                  D2 = (if cmd = GE_CMD_SIGNAL S \<or> cmd = GE_CMD_BASE S
                        then D1\<lparr>lastBase := 0xFFFFFFFF\<rparr> else D1)
              in Registers_ops S pushbuf ptr writePos lastTexHigh is D2 w2))"

text \<open>The first part of \<open>Registers\<close>: the list buffer is allocated and enqueued on first use.\<close>

definition Registers_list ::
  "sys \<Rightarrow> DumpExecute \<Rightarrow> world \<Rightarrow> bool \<times> DumpExecute \<times> world" where
  "Registers_list S D w =
     (if execListBuf D = 0 then
        (let r = userMemory_Alloc S w LIST_BUF_SIZE True;
             w1 = w @ [Ev_Alloc LIST_BUF_SIZE True ''List buf'' r];
             buf = (if r = - 1 then 0 else r)
         in if buf = 0 then
              (False, D\<lparr>execListBuf := 0\<rparr>,
               w1 @ [Ev_ERROR_LOG ''Unable to allocate for display list''])
            else
              (let w2 = w1 @ [Ev_Write_U32 (push_bit 24 (GE_CMD_NOP S)) buf,
                              Ev_EnableInterrupts False];
                   pos = buf + 4
               in case ExecuteOnMain S (mk_Operation OpType_EnqueueList buf pos) w2 of
                    (lid, w3) \<Rightarrow>
                      (True, D\<lparr>execListBuf := buf, execListPos := pos, execListID := lid\<rparr>,
                       w3 @ [Ev_EnableInterrupts True])))
      else (True, D, w))"

definition Registers ::
  "sys \<Rightarrow> u8 list \<Rightarrow> u32 \<Rightarrow> u32 \<Rightarrow> DumpExecute \<Rightarrow> world \<Rightarrow> DumpExecute \<times> world" where
  "Registers S pushbuf ptr sz D w =
     (case Registers_list S D w of
        (False, D1, w1) \<Rightarrow> (D1, w1)
      | (True, D1, w1) \<Rightarrow>
          (let pendingSize = word_of_nat (length (execListQueue D1)) * 4;
               allocSize = pendingSize + sz + 8
           in case (if execListPos D1 + allocSize \<ge> execListBuf D1 + LIST_BUF_SIZE then
                      (let w2 = w1 @
                             [Ev_Write_U32 (push_bit 24 (GE_CMD_BASE S)
                                              OR (drop_bit 8 (execListBuf D1) AND 0x00FF0000))
                                (execListPos D1),
                              Ev_Write_U32 (push_bit 24 (GE_CMD_JUMP S)
                                              OR (execListBuf D1 AND 0x00FFFFFF))
                                (execListPos D1 + 4)];
                           D2 = D1\<lparr>execListPos := execListBuf D1,
                                   lastBase := execListBuf D1 AND 0xFF000000\<rparr>
                       in (D2, SyncStall D2 w2))
                    else (D1, w1)) of
                (D2, w2) \<Rightarrow>
                  (let w3 = w2 @ [Ev_MemcpyWords (execListPos D2) (execListQueue D2)];
                       writePos = execListPos D2 + pendingSize;
                       w4 = w3 @ [Ev_MemcpyPushbuf writePos (unat ptr) sz];
                       D3 = D2\<lparr>execListPos := writePos + sz\<rparr>;
                       lastTexHigh =
                         map (\<lambda>i. drop_bit 8 (lastTex D3 ! i AND 0xFF000000)
                                     OR push_bit 24 (GE_CMD_TEXBUFWIDTH0 S + word_of_nat i))
                           [0..<8]
                   in case Registers_ops S pushbuf ptr writePos lastTexHigh
                             [0..<unat (sz div 4)] D3 w4 of
                        (D4, w5) \<Rightarrow> (D4\<lparr>execListQueue := []\<rparr>, w5))))"

text \<open>
  \<open>SubmitListEnd\<close>. \<open>g_cancelled\<close> is a global set by \<open>Replay_Unload\<close> from the main
  context; the executor only reads it, and here it is the argument \<open>cancelled\<close>, with the
  value the executor sees during the run.
\<close>

definition SubmitListEnd ::
  "sys \<Rightarrow> bool \<Rightarrow> DumpExecute \<Rightarrow> world \<Rightarrow> DumpExecute \<times> world" where
  "SubmitListEnd S cancelled D w =
     (if execListPos D = 0 \<or> cancelled then (D, w)
      else
        (let w1 = w @ [Ev_Write_U32 (push_bit 24 (GE_CMD_FINISH S)) (execListPos D),
                       Ev_Write_U32 (push_bit 24 (GE_CMD_END S)) (execListPos D + 4)];
             D1 = D\<lparr>execListPos := execListPos D + 8,
                    lastTex := replicate 8 0,
                    lastBase := 0xFFFFFFFF\<rparr>;
             w2 = SyncStall D1 w1
         in case ExecuteOnMain S (mk_Operation OpType_ListSync (execListID D1) 0) w2 of
              (r, w3) \<Rightarrow> (D1, w3)))"

definition Init ::
  "sys \<Rightarrow> u8 list \<Rightarrow> u32 \<Rightarrow> u32 \<Rightarrow> DumpExecute \<Rightarrow> world \<Rightarrow> DumpExecute \<times> world" where
  "Init S pushbuf ptr sz D w =
     (case ExecuteOnMain S (mk_Operation OpType_ReapplyGfxState 0 0)
             (w @ [Ev_gstate_Restore ptr]) of
        (r, w1) \<Rightarrow>
          (D\<lparr>lastBufw := replicate 8 0, lastTex := replicate 8 0, lastBase := 0xFFFFFFFF\<rparr>,
           w1))"

definition Vertices ::
  "sys \<Rightarrow> u8 list \<Rightarrow> u32 \<Rightarrow> u32 \<Rightarrow> DumpExecute \<Rightarrow> world \<Rightarrow> DumpExecute \<times> world" where
  "Vertices S pushbuf ptr sz D w =
     (case Map S pushbuf (SyncStall D) ptr sz (mapping D) w of
        (psp, m', w1) \<Rightarrow>
          (let D1 = D\<lparr>mapping := m'\<rparr> in
           if psp = 0 then (D1, w1 @ [Ev_ERROR_LOG ''Unable to allocate for vertices''])
           else
             (let D2 = (if lastBase D1 \<noteq> (psp AND 0xFF000000) then
                          D1\<lparr>execListQueue := execListQueue D1 @
                                [push_bit 24 (GE_CMD_BASE S) OR (drop_bit 8 psp AND 0x00FF0000)],
                              lastBase := psp AND 0xFF000000\<rparr>
                        else D1)
              in (D2\<lparr>execListQueue := execListQueue D2 @
                        [push_bit 24 (GE_CMD_VADDR S) OR (psp AND 0x00FFFFFF)]\<rparr>, w1))))"

definition Indices ::
  "sys \<Rightarrow> u8 list \<Rightarrow> u32 \<Rightarrow> u32 \<Rightarrow> DumpExecute \<Rightarrow> world \<Rightarrow> DumpExecute \<times> world" where
  "Indices S pushbuf ptr sz D w =
     (case Map S pushbuf (SyncStall D) ptr sz (mapping D) w of
        (psp, m', w1) \<Rightarrow>
          (let D1 = D\<lparr>mapping := m'\<rparr> in
           if psp = 0 then (D1, w1 @ [Ev_ERROR_LOG ''Unable to allocate for indices''])
           else
             (let D2 = (if lastBase D1 \<noteq> (psp AND 0xFF000000) then
                          D1\<lparr>execListQueue := execListQueue D1 @
                                [push_bit 24 (GE_CMD_BASE S) OR (drop_bit 8 psp AND 0x00FF0000)],
                              lastBase := psp AND 0xFF000000\<rparr>
                        else D1)
              in (D2\<lparr>execListQueue := execListQueue D2 @
                        [push_bit 24 (GE_CMD_IADDR S) OR (psp AND 0x00FFFFFF)]\<rparr>, w1))))"

definition ClutAddr ::
  "sys \<Rightarrow> u8 list \<Rightarrow> u32 \<Rightarrow> u32 \<Rightarrow> DumpExecute \<Rightarrow> world \<Rightarrow> DumpExecute \<times> world" where
  "ClutAddr S pushbuf ptr sz D w =
     (D\<lparr>execClutAddr := read_u32 pushbuf (unat ptr),
        execClutFlags := read_u32 pushbuf (unat ptr + 4)\<rparr>, w)"

definition Clut ::
  "sys \<Rightarrow> u8 list \<Rightarrow> u32 \<Rightarrow> u32 \<Rightarrow> DumpExecute \<Rightarrow> world \<Rightarrow> DumpExecute \<times> world" where
  "Clut S pushbuf ptr sz D w =
     (if execClutAddr D \<noteq> 0 then
        (let isTarget = (execClutFlags D AND 1 \<noteq> 0);
             w1 = (if Memory_IsValidRange S (execClutAddr D) sz
                      \<and> (\<not> isTarget \<or> \<not> bSoftwareRendering S)
                   then w @ [Ev_MemcpyPushbuf (execClutAddr D) (unat ptr) sz,
                             Ev_NotifyMemInfo (execClutAddr D) sz ''ReplayClut'']
                   else w)
         in (D\<lparr>execClutAddr := 0\<rparr>, w1))
      else
        (case Map S pushbuf (SyncStall D) ptr sz (mapping D) w of
           (psp, m', w1) \<Rightarrow>
             (let D1 = D\<lparr>mapping := m'\<rparr> in
              if psp = 0 then (D1, w1 @ [Ev_ERROR_LOG ''Unable to allocate for clut''])
              else
                (D1\<lparr>execListQueue := execListQueue D1 @
                       [push_bit 24 (GE_CMD_CLUTADDRUPPER S) OR (drop_bit 8 psp AND 0x00FF0000),
                        push_bit 24 (GE_CMD_CLUTADDR S) OR (psp AND 0x00FFFFFF)]\<rparr>, w1))))"

definition TransferSrc ::
  "sys \<Rightarrow> u8 list \<Rightarrow> u32 \<Rightarrow> u32 \<Rightarrow> DumpExecute \<Rightarrow> world \<Rightarrow> DumpExecute \<times> world" where
  "TransferSrc S pushbuf ptr sz D w =
     (case Map S pushbuf (SyncStall D) ptr sz (mapping D) w of
        (psp, m', w1) \<Rightarrow>
          (let D1 = D\<lparr>mapping := m'\<rparr> in
           if psp = 0 then (D1, w1 @ [Ev_ERROR_LOG ''Unable to allocate for transfer''])
           else
             (let w2 = SyncStall D1 w1
              in (D1\<lparr>execListQueue := execListQueue D1 @
                        [(gstate_transfersrcw S w2 AND 0xFF00FFFF)
                           OR (drop_bit 8 psp AND 0x00FF0000),
                         push_bit 24 (GE_CMD_TRANSFERSRC S) OR (psp AND 0x00FFFFFF)]\<rparr>, w2))))"

definition Memset ::
  "sys \<Rightarrow> u8 list \<Rightarrow> u32 \<Rightarrow> u32 \<Rightarrow> DumpExecute \<Rightarrow> world \<Rightarrow> DumpExecute \<times> world" where
  "Memset S pushbuf ptr sz D w =
     (let dest = read_u32 pushbuf (unat ptr);
          val = read_u32 pushbuf (unat ptr + 4);
          n = read_u32 pushbuf (unat ptr + 8)
      in if Memory_IsVRAMAddress S dest
         then (D, SyncStall D w @ [Ev_PerformMemorySet dest (ucast val) n])
         else (D, w))"

definition MemcpyDest ::
  "sys \<Rightarrow> u8 list \<Rightarrow> u32 \<Rightarrow> u32 \<Rightarrow> DumpExecute \<Rightarrow> world \<Rightarrow> DumpExecute \<times> world" where
  "MemcpyDest S pushbuf ptr sz D w = (D\<lparr>execMemcpyDest := read_u32 pushbuf (unat ptr)\<rparr>, w)"

definition Memcpy ::
  "sys \<Rightarrow> u8 list \<Rightarrow> u32 \<Rightarrow> u32 \<Rightarrow> DumpExecute \<Rightarrow> world \<Rightarrow> DumpExecute \<times> world" where
  "Memcpy S pushbuf ptr sz D w =
     (if Memory_IsVRAMAddress S (execMemcpyDest D)
      then (D, SyncStall D w @
                 [Ev_MemcpyPushbuf (execMemcpyDest D) (unat ptr) sz,
                  Ev_NotifyMemInfo (execMemcpyDest D) sz ''ReplayMemcpy'',
                  Ev_PerformWriteColorFromMemory (execMemcpyDest D) sz])
      else (D, w))"

definition Texture ::
  "sys \<Rightarrow> u8 list \<Rightarrow> nat \<Rightarrow> u32 \<Rightarrow> u32 \<Rightarrow> DumpExecute \<Rightarrow> world \<Rightarrow> DumpExecute \<times> world" where
  "Texture S pushbuf level ptr sz D w =
     (case Map S pushbuf (SyncStall D) ptr sz (mapping D) w of
        (psp, m', w1) \<Rightarrow>
          (let D1 = D\<lparr>mapping := m'\<rparr> in
           if psp = 0 then (D1, w1 @ [Ev_ERROR_LOG ''Unable to allocate for texture''])
           else if lastTex D1 ! level \<noteq> psp then
             (let bufwCmd = GE_CMD_TEXBUFWIDTH0 S + word_of_nat level;
                  addrCmd = GE_CMD_TEXADDR0 S + word_of_nat level
              in (D1\<lparr>execListQueue := execListQueue D1 @
                        [push_bit 24 bufwCmd OR (drop_bit 8 psp AND 0x00FF0000)
                           OR ucast (lastBufw D1 ! level),
                         push_bit 24 addrCmd OR (psp AND 0x00FFFFFF)],
                      lastTex := (lastTex D1)[level := psp]\<rparr>, w1))
           else (D1, w1)))"

text \<open>
  \<open>Framebuf\<close>. The payload starts with \<open>FramebufData\<close>: \<open>addr\<close>, \<open>bufw\<close>, \<open>flags\<close>, \<open>pad\<close>,
  four bytes each. \<open>bufw\<close> is an \<open>int\<close>; it is compared with the \<open>u16\<close> of \<open>lastBufw\<close>
  after promotion and stored back truncated.
\<close>

definition Framebuf ::
  "sys \<Rightarrow> u8 list \<Rightarrow> nat \<Rightarrow> u32 \<Rightarrow> u32 \<Rightarrow> DumpExecute \<Rightarrow> world \<Rightarrow> DumpExecute \<times> world" where
  "Framebuf S pushbuf level ptr sz D w =
     (let addr = read_u32 pushbuf (unat ptr);
          bufw = read_u32 pushbuf (unat ptr + 4);
          flags = read_u32 pushbuf (unat ptr + 8);
          D1 = (if lastTex D ! level \<noteq> addr \<or> ucast (lastBufw D ! level) \<noteq> bufw then
                  (let bufwCmd = GE_CMD_TEXBUFWIDTH0 S + word_of_nat level;
                       addrCmd = GE_CMD_TEXADDR0 S + word_of_nat level
                   in D\<lparr>execListQueue := execListQueue D @
                           [push_bit 24 bufwCmd OR (drop_bit 8 addr AND 0x00FF0000) OR bufw,
                            push_bit 24 addrCmd OR (addr AND 0x00FFFFFF)],
                         lastTex := (lastTex D)[level := addr],
                         lastBufw := (lastBufw D)[level := ucast bufw]\<rparr>)
                else D);
          headerSize = 16;
          pspSize = sz - headerSize;
          isTarget = (flags AND 1 \<noteq> 0);
          unchangedVRAM = (version D \<ge> 6 \<and> flags AND 2 \<noteq> 0)
      in if Memory_IsValidRange S addr pspSize \<and> \<not> unchangedVRAM
            \<and> (\<not> isTarget \<or> \<not> bSoftwareRendering S)
         then (D1, w @ [Ev_MemcpyPushbuf addr (unat ptr + unat headerSize) pspSize,
                        Ev_NotifyMemInfo addr pspSize ''ReplayTex''])
         else (D1, w))"

definition Display ::
  "sys \<Rightarrow> u8 list \<Rightarrow> u32 \<Rightarrow> u32 \<Rightarrow> bool \<Rightarrow> DumpExecute \<Rightarrow> world \<Rightarrow> DumpExecute \<times> world" where
  "Display S pushbuf ptr sz allowFlip D w =
     (let topaddr = read_u32 pushbuf (unat ptr);
          linesize = read_u32 pushbuf (unat ptr + 4);
          pixelFormat = read_u32 pushbuf (unat ptr + 8);
          w1 = SyncStall D w @ [Ev_DisplaySetFramebuf topaddr linesize pixelFormat 1]
      in (D, if allowFlip then w1 @ [Ev_DisplaySetFramebuf topaddr linesize pixelFormat 0]
             else w1))"

definition EdramTrans ::
  "sys \<Rightarrow> u8 list \<Rightarrow> u32 \<Rightarrow> u32 \<Rightarrow> DumpExecute \<Rightarrow> world \<Rightarrow> DumpExecute \<times> world" where
  "EdramTrans S pushbuf ptr sz D w =
     (let v = read_u32 pushbuf (unat ptr);
          w1 = SyncStall D w
      in (D, if gpu_present S then w1 @ [Ev_SetAddrTranslation v] else w1))"

text \<open>The destructor.\<close>

definition DumpExecute_destroy :: "DumpExecute \<Rightarrow> world \<Rightarrow> DumpExecute \<times> world" where
  "DumpExecute_destroy D w =
     (let w1 = (if execListBuf D \<noteq> 0 then w @ [Ev_Free (execListBuf D)] else w)
      in case Reset (mapping D) w1 of
           (m', w2) \<Rightarrow>
             (D\<lparr>execMemcpyDest := 0, execListBuf := 0, execListPos := 0, mapping := m'\<rparr>, w2))"

text \<open>
  The switch of \<open>Run\<close>: \<open>None\<close> is the \<open>default\<close> branch. The texture and framebuffer
  level is the distance of the enumerator from \<open>TEXTURE0\<close> or \<open>FRAMEBUF0\<close>.
\<close>

definition Run_switch ::
  "sys \<Rightarrow> u8 list \<Rightarrow> Command \<Rightarrow> bool \<Rightarrow> DumpExecute \<Rightarrow> world
     \<Rightarrow> (DumpExecute \<times> world) option" where
  "Run_switch S pushbuf cmd is_last D w =
     (let ptr = cmd_ptr cmd; sz = cmd_sz cmd in
      case cmd_type cmd of
        INIT \<Rightarrow> Some (Init S pushbuf ptr sz D w)
      | REGISTERS \<Rightarrow> Some (Registers S pushbuf ptr sz D w)
      | VERTICES \<Rightarrow> Some (Vertices S pushbuf ptr sz D w)
      | INDICES \<Rightarrow> Some (Indices S pushbuf ptr sz D w)
      | CLUTADDR \<Rightarrow> Some (ClutAddr S pushbuf ptr sz D w)
      | CLUT \<Rightarrow> Some (Clut S pushbuf ptr sz D w)
      | TRANSFERSRC \<Rightarrow> Some (TransferSrc S pushbuf ptr sz D w)
      | MEMSET \<Rightarrow> Some (Memset S pushbuf ptr sz D w)
      | MEMCPYDEST \<Rightarrow> Some (MemcpyDest S pushbuf ptr sz D w)
      | MEMCPYDATA \<Rightarrow> Some (Memcpy S pushbuf ptr sz D w)
      | EDRAMTRANS \<Rightarrow> Some (EdramTrans S pushbuf ptr sz D w)
      | TEXTURE0 \<Rightarrow> Some (Texture S pushbuf 0 ptr sz D w)
      | TEXTURE1 \<Rightarrow> Some (Texture S pushbuf 1 ptr sz D w)
      | TEXTURE2 \<Rightarrow> Some (Texture S pushbuf 2 ptr sz D w)
      | TEXTURE3 \<Rightarrow> Some (Texture S pushbuf 3 ptr sz D w)
      | TEXTURE4 \<Rightarrow> Some (Texture S pushbuf 4 ptr sz D w)
      | TEXTURE5 \<Rightarrow> Some (Texture S pushbuf 5 ptr sz D w)
      | TEXTURE6 \<Rightarrow> Some (Texture S pushbuf 6 ptr sz D w)
      | TEXTURE7 \<Rightarrow> Some (Texture S pushbuf 7 ptr sz D w)
      | FRAMEBUF0 \<Rightarrow> Some (Framebuf S pushbuf 0 ptr sz D w)
      | FRAMEBUF1 \<Rightarrow> Some (Framebuf S pushbuf 1 ptr sz D w)
      | FRAMEBUF2 \<Rightarrow> Some (Framebuf S pushbuf 2 ptr sz D w)
      | FRAMEBUF3 \<Rightarrow> Some (Framebuf S pushbuf 3 ptr sz D w)
      | FRAMEBUF4 \<Rightarrow> Some (Framebuf S pushbuf 4 ptr sz D w)
      | FRAMEBUF5 \<Rightarrow> Some (Framebuf S pushbuf 5 ptr sz D w)
      | FRAMEBUF6 \<Rightarrow> Some (Framebuf S pushbuf 6 ptr sz D w)
      | FRAMEBUF7 \<Rightarrow> Some (Framebuf S pushbuf 7 ptr sz D w)
      | DISPLAY \<Rightarrow> Some (Display S pushbuf ptr sz is_last D w)
      | UNKNOWN v \<Rightarrow> None)"

text \<open>
  The loop of \<open>Run\<close> over the commands that remain; the command at hand is the last one
  (\<open>i == commands_.size() - 1\<close>) when none follows. Leaving the loop, by its end or by
  \<open>break\<close>, leads to \<open>SubmitListEnd\<close> and \<open>Done\<close>; the \<open>default\<close> branch returns from \<open>Run\<close>.
\<close>

fun Run_loop ::
  "sys \<Rightarrow> bool \<Rightarrow> u8 list \<Rightarrow> Command list \<Rightarrow> DumpExecute \<Rightarrow> world
     \<Rightarrow> ReplayResult \<times> DumpExecute \<times> world" where
  "Run_loop S cancelled pushbuf [] D w =
     (case SubmitListEnd S cancelled D w of (D', w') \<Rightarrow> (ReplayResult_Done, D', w'))"
| "Run_loop S cancelled pushbuf (cmd # cmds) D w =
     (if cancelled then
        (case SubmitListEnd S cancelled D w of (D', w') \<Rightarrow> (ReplayResult_Done, D', w'))
      else
        (case Run_switch S pushbuf cmd (cmds = []) D w of
           None \<Rightarrow>
             (ReplayResult_Error, D, w @ [Ev_ERROR_LOG ''Unsupported GE dump command''])
         | Some (D', w') \<Rightarrow> Run_loop S cancelled pushbuf cmds D' w'))"

definition Run ::
  "sys \<Rightarrow> bool \<Rightarrow> u8 list \<Rightarrow> Command list \<Rightarrow> DumpExecute \<Rightarrow> world
     \<Rightarrow> ReplayResult \<times> DumpExecute \<times> world" where
  "Run S cancelled pushbuf commands D w =
     (let w1 = (if gpu_present S then w @ [Ev_SetAddrTranslation 0x400] else w);
          w2 = (if resumeIndex D \<ge> 0 then SyncStall D w1 else w1);
          start = (if resumeIndex D \<ge> 0 then nat (resumeIndex D) else 0)
      in Run_loop S cancelled pushbuf (drop start commands) D w2)"

subsection \<open>The mailbox\<close>

text \<open>
  The globals of the file. \<open>replayThread\<close> is the thread handle: \<open>None\<close> when it is not
  joinable, and otherwise the operations the running replay thread has yet to post, in
  order. The two contexts alternate strictly (each blocks for the other), so an
  invocation of the entry point that waits for the next operation receives the head of
  that list.
\<close>

record globals =
  lastExecFilename :: string
  lastExecVersion :: u32
  lastExecCommands :: "Command list"
  lastExecPushbuf :: "u8 list"
  g_opToExec :: Operation
  g_retVal :: u32
  g_opDone :: bool
  g_cancelled :: bool
  replayThread :: "Operation list option"

definition globals_init :: globals where
  "globals_init =
     \<lparr>lastExecFilename = [], lastExecVersion = 0, lastExecCommands = [],
      lastExecPushbuf = [], g_opToExec = mk_Operation OpType_None 0 0, g_retVal = 0,
      g_opDone = True, g_cancelled = False, replayThread = None\<rparr>"

text \<open>
  \<open>ExecuteOnMain\<close>, on the replay thread. Its first block stores the operation; its
  second block is \<open>opFinishWait.wait(lock, pred)\<close>, that is \<open>while (!pred()) wait(lock)\<close>:
  the predicate is evaluated on entry and after every wake-up, and the call returns the
  first time it holds. \<open>acts\<close> lists what the other context does to the globals before
  each wake-up; when the predicate holds at none of the evaluations the thread stays
  blocked, which is the result \<open>None\<close>.
\<close>

definition ExecuteOnMain_post :: "Operation \<Rightarrow> globals \<Rightarrow> globals" where
  "ExecuteOnMain_post opToExec G = G\<lparr>g_opToExec := opToExec, g_retVal := 0, g_opDone := False\<rparr>"

fun opFinishWait_wait :: "globals \<Rightarrow> (globals \<Rightarrow> globals) list \<Rightarrow> globals option" where
  "opFinishWait_wait G [] = (if g_opDone G \<or> g_cancelled G then Some G else None)"
| "opFinishWait_wait G (act # acts) =
     (if g_opDone G \<or> g_cancelled G then Some G else opFinishWait_wait (act G) acts)"

definition ExecuteOnMain_thread ::
  "Operation \<Rightarrow> globals \<Rightarrow> (globals \<Rightarrow> globals) list \<Rightarrow> (u32 \<times> globals) option" where
  "ExecuteOnMain_thread opToExec G acts =
     (case opFinishWait_wait (ExecuteOnMain_post opToExec G) acts of
        None \<Rightarrow> None
      | Some G' \<Rightarrow> Some (g_retVal G', G'))"

text \<open>
  The block of \<open>Replay_Unload\<close> that tells a running replay thread to stop: it sets the
  flag and then notifies \<open>opFinishWait\<close>, which wakes the waiting thread.
\<close>

definition Replay_Unload_cancel :: "globals \<Rightarrow> globals" where
  "Replay_Unload_cancel G = G\<lparr>g_cancelled := True\<rparr>"

subsection \<open>The loader\<close>

text \<open>
  The file system, the two decompressors and the declarations of
  \<open>GPU/Debugger/RecordFormat.h\<close> (the header struct, its magic, the version bounds, the
  size and layout of \<open>Command\<close>) are not among the sources; they are the parameters
  collected here.
  \<^item> \<open>file_contents\<close>: the bytes \<open>pspFileSystem\<close> delivers for a file name.
  \<^item> \<open>header_magic\<close>, \<open>header_version\<close>: the members of \<open>Header\<close> after the given bytes
    were read into it.
  \<^item> \<open>encode_commands\<close>, \<open>decode_commands\<close>: the bytes of the storage of a vector of
    \<open>Command\<close>, and the vector that such bytes are.
  \<^item> \<open>snappy_uncompress\<close>, for the compressed bytes and the capacity passed in through
    its last argument: the bytes it writes to the start of \<open>dest\<close>, and the length it
    stores through the last argument, if it stores one. It stores none when it fails
    (the status it returns is ignored by the caller).
  \<^item> \<open>ZSTD_decompress\<close>, for the compressed bytes and the capacity: the bytes it writes
    to the start of \<open>dst\<close>, and the value returned.
\<close>

record fs =
  file_contents :: "string \<Rightarrow> u8 list"
  sizeof_Header :: nat
  header_magic :: "u8 list \<Rightarrow> u8 list"
  header_version :: "u8 list \<Rightarrow> u32"
  HEADER_MAGIC :: "u8 list"
  VERSION :: u32
  MIN_VERSION :: u32
  sizeof_Command :: nat
  encode_commands :: "Command list \<Rightarrow> u8 list"
  decode_commands :: "u8 list \<Rightarrow> Command list"
  snappy_uncompress :: "u8 list \<Rightarrow> nat \<Rightarrow> u8 list \<times> nat option"
  ZSTD_decompress :: "u8 list \<Rightarrow> nat \<Rightarrow> u8 list \<times> nat"

text \<open>An open file, and \<open>ReadFile\<close>: the bytes read, and the file with its cursor moved.\<close>

record open_file =
  file_bytes :: "u8 list"
  file_pos :: nat

definition ReadFile :: "open_file \<Rightarrow> nat \<Rightarrow> u8 list \<times> open_file" where
  "ReadFile fp n =
     (let got = take n (drop (file_pos fp) (file_bytes fp))
      in (got, fp\<lparr>file_pos := file_pos fp + length got\<rparr>))"

text \<open>
  The storage of a vector, as bytes. \<open>resize\<close> keeps the leading bytes and fills up with
  zero bytes (new elements are value-initialised). \<open>write_dest\<close> is the storage after a
  decompressor wrote bytes to its start; a decompressor writes no more than the capacity
  it is given, which is the size of the storage.
\<close>

definition resize :: "nat \<Rightarrow> u8 list \<Rightarrow> u8 list" where
  "resize n bytes = take n bytes @ replicate (n - length bytes) 0"

definition write_dest :: "u8 list \<Rightarrow> u8 list \<Rightarrow> u8 list" where
  "write_dest written dest = take (length dest) written @ drop (length written) dest"

text \<open>
  \<open>ReadCompressed\<close>: its success, the bytes of \<open>dest\<close> afterwards and the file. Sizes
  are \<open>size_t\<close> values, here natural numbers. The two early returns leave \<open>dest\<close> as it
  was. \<open>real_size\<close> starts as \<open>sz\<close> and keeps that value when the legacy decompressor
  stores no length.
\<close>

definition ReadCompressed ::
  "fs \<Rightarrow> open_file \<Rightarrow> u8 list \<Rightarrow> nat \<Rightarrow> u32 \<Rightarrow> bool \<times> u8 list \<times> open_file" where
  "ReadCompressed F fp dest sz ver =
     (case ReadFile fp 4 of
        (b, fp1) \<Rightarrow>
          if length b \<noteq> 4 then (False, dest, fp1)
          else
            (let compressed_size = unat (read_u32 b 0) in
             case ReadFile fp1 compressed_size of
               (compressed, fp2) \<Rightarrow>
                 if length compressed \<noteq> compressed_size then (False, dest, fp2)
                 else if ver < 5 then
                   (case snappy_uncompress F compressed sz of
                      (written, stored) \<Rightarrow>
                        (let real_size = (case stored of None \<Rightarrow> sz | Some n \<Rightarrow> n)
                         in (real_size = sz, write_dest written dest, fp2)))
                 else
                   (case ZSTD_decompress F compressed sz of
                      (written, real_size) \<Rightarrow>
                        (real_size = sz, write_dest written dest, fp2))))"

text \<open>
  \<open>LoadReplay\<close>: the value returned and the globals. The window title and the
  \<open>DISC_ID\<close> it is made of do not bear on the result and are left out. The two
  counts are read into variables that start at zero. Both vectors are resized before
  the streams are read. When the first stream fails, the second is not read and the
  pushbuffer keeps what \<open>resize\<close> left.
\<close>

definition LoadReplay :: "fs \<Rightarrow> string \<Rightarrow> globals \<Rightarrow> u32 \<times> globals" where
  "LoadReplay F filename G =
     (let G1 = G\<lparr>g_cancelled := False\<rparr> in
      case ReadFile \<lparr>file_bytes = file_contents F filename, file_pos = 0\<rparr> (sizeof_Header F) of
        (hb, fp) \<Rightarrow>
          (let ver = header_version F hb in
           if header_magic F hb \<noteq> HEADER_MAGIC F \<or> ver > VERSION F \<or> ver < MIN_VERSION F
           then (0, G1)
           else
             (let fp1 = (if ver \<le> 3 then fp\<lparr>file_pos := 12\<rparr> else fp) in
              case ReadFile fp1 4 of
                (b1, fp2) \<Rightarrow>
                  (case ReadFile fp2 4 of
                     (b2, fp3) \<Rightarrow>
                       (let sz = read_u32 b1 0;
                            bufsz = read_u32 b2 0;
                            commands = resize (sizeof_Command F * unat sz)
                                         (encode_commands F (lastExecCommands G1));
                            pushbuf = resize (unat bufsz) (lastExecPushbuf G1)
                        in case ReadCompressed F fp3 commands (sizeof_Command F * unat sz) ver of
                             (ok1, dest1, fp4) \<Rightarrow>
                               (case (if ok1 then ReadCompressed F fp4 pushbuf (unat bufsz) ver
                                      else (True, pushbuf, fp4)) of
                                  (ok2, dest2, fp5) \<Rightarrow>
                                    (let truncated = (\<not> ok1 \<or> \<not> ok2);
                                         G2 = G1\<lparr>lastExecCommands := decode_commands F dest1,
                                                 lastExecPushbuf := dest2\<rparr>
                                     in if truncated then (0, G2)
                                        else (ver, G2\<lparr>lastExecFilename := filename,
                                                      lastExecVersion := ver\<rparr>))))))))"

subsection \<open>The replay thread and the entry point\<close>

text \<open>
  The body of the replay thread: it runs the executor, drops the value \<open>Run\<close> returned,
  posts \<open>Done\<close>, and the executor is destroyed when the body ends.
\<close>

definition replayThread_body ::
  "sys \<Rightarrow> bool \<Rightarrow> u8 list \<Rightarrow> Command list \<Rightarrow> u32 \<Rightarrow> world \<Rightarrow> world" where
  "replayThread_body S cancelled pushbuf commands ver w =
     (case Run S cancelled pushbuf commands (DumpExecute_new ver) w of
        (retval, D, w1) \<Rightarrow>
          (case ExecuteOnMain S (mk_Operation OpType_Done 0 0) w1 of
             (r, w2) \<Rightarrow> snd (DumpExecute_destroy D w2)))"

text \<open>The operations handed to the main context in a stretch of the world, in order.\<close>

fun posted :: "world \<Rightarrow> Operation list" where
  "posted [] = []"
| "posted (Ev_OnMain opToExec # w) = opToExec # posted w"
| "posted (e # w) = posted w"

text \<open>
  \<open>RunMountedReplay\<close>: the result and the globals, or \<open>None\<close> when the call does not
  return. \<open>w\<close> is the world at the time of the call.
  \<^item> A change of file name with a replay thread still running joins that thread first.
    Between two invocations a running thread waits in \<open>ExecuteOnMain\<close> for \<open>g_opDone\<close>,
    which only this context sets, further down: the join does not return.
  \<^item> Completing the previous round trip (\<open>g_opDone = true\<close>, notify) lets the thread go on
    to its next operation; waiting on \<open>g_condOpStartWait\<close> then receives that operation,
    stored by the first block of \<open>ExecuteOnMain\<close>.
  \<^item> The engine calls made for an operation are the main context's half of the \<open>Ev_OnMain\<close>
    event of the thread; what \<open>EnqueueList\<close> returns is the oracle \<open>ExecuteOnMain_retVal\<close>.
\<close>

definition RunMountedReplay ::
  "sys \<Rightarrow> fs \<Rightarrow> world \<Rightarrow> string \<Rightarrow> globals \<Rightarrow> (ReplayResult \<times> globals) option" where
  "RunMountedReplay S F w filename G =
     (case (if lastExecFilename G \<noteq> filename then
              (if replayThread G \<noteq> None then None
               else (case LoadReplay F filename G of
                       (ver, G1) \<Rightarrow> Some (ver = 0, ver, G1)))
            else Some (False, lastExecVersion G, G)) of
        None \<Rightarrow> None
      | Some (True, ver, G1) \<Rightarrow> Some (ReplayResult_Error, G1)
      | Some (False, ver, G1) \<Rightarrow>
          (let G2 = (if op_type (g_opToExec G1) \<noteq> OpType_None
                     then G1\<lparr>g_opDone := True, g_opToExec := mk_Operation OpType_None 0 0\<rparr>
                     else G1);
               G3 = (if replayThread G2 = None
                     then G2\<lparr>g_opToExec := mk_Operation OpType_None 0 0,
                             replayThread :=
                               Some (posted (drop (length w)
                                 (replayThread_body S (g_cancelled G2) (lastExecPushbuf G2)
                                    (lastExecCommands G2) ver w)))\<rparr>
                     else G2)
           in case replayThread G3 of
                None \<Rightarrow> None
              | Some [] \<Rightarrow> None
              | Some (opToExec # ops) \<Rightarrow>
                  (let G4 = (ExecuteOnMain_post opToExec G3)\<lparr>replayThread := Some ops\<rparr> in
                   case op_type (g_opToExec G4) of
                     OpType_UpdateStallAddr \<Rightarrow> Some (ReplayResult_Break, G4)
                   | OpType_EnqueueList \<Rightarrow>
                       Some (ReplayResult_Break,
                             G4\<lparr>g_retVal := ExecuteOnMain_retVal S w (g_opToExec G4)\<rparr>)
                   | OpType_ReapplyGfxState \<Rightarrow> Some (ReplayResult_Break, G4)
                   | OpType_ListSync \<Rightarrow> Some (ReplayResult_Break, G4)
                   | OpType_Done \<Rightarrow>
                       Some (ReplayResult_Done,
                             G4\<lparr>g_opDone := True, replayThread := None,
                                g_opToExec := mk_Operation OpType_None 0 0\<rparr>)
                   | OpType_None \<Rightarrow> None)))"

subsection \<open>The extra path as the specification words it\<close>

text \<open>
  A second description of a miss on the extra path, following the specification: "on
  miss, call \<open>flush()\<close>, pick the next entry round-robin, free its previous content,
  allocate+copy; if allocation fails, free all extra entries once and retry the same
  slot; total failure returns 0". It is written without loops, to be compared with
  \<open>MapExtra\<close>.
\<close>

definition alloc_ok :: "u32 \<Rightarrow> bool" where
  "alloc_ok r \<longleftrightarrow> r \<noteq> - 1 \<and> r \<noteq> 0"

definition free_event :: "u32 \<Rightarrow> event list" where
  "free_event p = (if p \<noteq> 0 then [Ev_Free p] else [])"

definition Extra_freed :: "ExtraInfo \<Rightarrow> ExtraInfo" where
  "Extra_freed e =
     (if extra_psp_pointer e \<noteq> 0 then e\<lparr>extra_psp_pointer := 0, extra_buf_pointer := 0\<rparr>
      else e)"

definition MapExtra_miss_spec ::
  "sys \<Rightarrow> (world \<Rightarrow> world) \<Rightarrow> u32 \<Rightarrow> u32 \<Rightarrow> BufMapping \<Rightarrow> world
     \<Rightarrow> u32 \<times> BufMapping \<times> world" where
  "MapExtra_miss_spec S flush bufpos sz m w =
     (let i = bm_extraOffset m;
          nxt = (i + 1) mod EXTRA_COUNT;
          old = bm_extra m ! i;
          w1 = flush w @ free_event (extra_psp_pointer old);
          r1 = userMemory_Alloc S w1 sz False;
          w2 = w1 @ [Ev_Alloc sz False ''Straddle extra'' r1];
          new = (\<lambda>r. \<lparr>extra_psp_pointer = r, extra_buf_pointer = bufpos, extra_size = sz\<rparr>)
      in if alloc_ok r1 then
           (r1, m\<lparr>bm_extraOffset := nxt, bm_extra := (bm_extra m)[i := new r1]\<rparr>,
            w2 @ [Ev_MemcpyPushbuf r1 (unat bufpos) sz])
         else
           (let others = (bm_extra m)[i := Extra_freed old];
                w3 = w2 @ concat (map (\<lambda>e. free_event (extra_psp_pointer e)) others);
                r2 = userMemory_Alloc S w3 sz False;
                w4 = w3 @ [Ev_Alloc sz False ''Straddle extra'' r2];
                all_free = map Extra_freed (bm_extra m)
            in if alloc_ok r2 then
                 (r2, m\<lparr>bm_extraOffset := nxt, bm_extra := all_free[i := new r2]\<rparr>,
                  w4 @ [Ev_MemcpyPushbuf r2 (unat bufpos) sz])
               else (0, m\<lparr>bm_extraOffset := nxt, bm_extra := all_free\<rparr>, w4)))"

subsection \<open>Concrete machines and inputs\<close>

text \<open>
  A machine for the examples: an allocator that hands out consecutive blocks from
  \<open>0x08800000\<close>, the list id 1, the command numbers of the PSP graphics engine, and
  hardware rendering. \<open>nomem_sys\<close> is the same machine with its memory exhausted.
\<close>

fun bump :: "world \<Rightarrow> u32" where
  "bump [] = 0x08800000"
| "bump (Ev_Alloc sz fromTop tag r # w) = bump w + sz"
| "bump (e # w) = bump w"

definition demo_sys :: sys where
  "demo_sys =
     \<lparr>userMemory_Alloc = (\<lambda>w sz fromTop. bump w),
      ExecuteOnMain_retVal = (\<lambda>w opToExec. if op_type opToExec = OpType_EnqueueList then 1 else 0),
      gstate_transfersrcw = (\<lambda>w. 0xB3000200),
      Memory_IsValidRange = (\<lambda>a n. 0x04000000 \<le> a \<and> a < 0x0A000000),
      Memory_IsVRAMAddress = (\<lambda>a. a AND 0x3F800000 = 0x04000000),
      bSoftwareRendering = False,
      gpu_present = True,
      GE_CMD_NOP = 0x00, GE_CMD_VADDR = 0x01, GE_CMD_IADDR = 0x02, GE_CMD_JUMP = 0x08,
      GE_CMD_END = 0x0C, GE_CMD_SIGNAL = 0x0E, GE_CMD_FINISH = 0x0F, GE_CMD_BASE = 0x10,
      GE_CMD_TEXADDR0 = 0xA0, GE_CMD_TEXADDR7 = 0xA7,
      GE_CMD_TEXBUFWIDTH0 = 0xA8, GE_CMD_TEXBUFWIDTH7 = 0xAF,
      GE_CMD_CLUTADDR = 0xB0, GE_CMD_CLUTADDRUPPER = 0xB1, GE_CMD_TRANSFERSRC = 0xB2\<rparr>"

definition nomem_sys :: sys where
  "nomem_sys = demo_sys\<lparr>userMemory_Alloc := (\<lambda>w sz fromTop. - 1)\<rparr>"

text \<open>
  A mapper whose ten slabs all are in use: slab \<open>i\<close> mirrors the pushbuffer from
  \<open>i * SLAB_SIZE\<close>; slab 3 was used longest ago (generation 1 of 10).
\<close>

definition demo_slab :: "nat \<Rightarrow> int \<Rightarrow> SlabInfo" where
  "demo_slab i used =
     \<lparr>slab_psp_pointer = 0x08800000 + SLAB_SIZE * word_of_nat i,
      slab_buf_pointer = SLAB_SIZE * word_of_nat i,
      slab_last_used = used\<rparr>"

definition demo_slabs :: "SlabInfo list" where
  "demo_slabs =
     [demo_slab 0 5, demo_slab 1 3, demo_slab 2 9, demo_slab 3 1, demo_slab 4 7,
      demo_slab 5 2, demo_slab 6 8, demo_slab 7 4, demo_slab 8 10, demo_slab 9 6]"

definition demo_full :: BufMapping where
  "demo_full =
     BufMapping_new\<lparr>bm_slabGeneration := 10, bm_slabs := demo_slabs, bm_lastSlab := 8\<rparr>"

subsection \<open>Notions used to state the properties\<close>

text \<open>
  \<open>adds P w w'\<close>: the world \<open>w'\<close> is \<open>w\<close> followed by events that all satisfy \<open>P\<close>.
  \<open>handler_event\<close> holds of every event except a hand-over to the main context of an
  operation other than \<open>UpdateStallAddr\<close>, \<open>EnqueueList\<close> and \<open>ReapplyGfxState\<close>; in
  particular it excludes a \<open>ListSync\<close> and the terminal \<open>Done\<close>.
\<close>

definition handler_event :: "event \<Rightarrow> bool" where
  "handler_event e =
     (case e of
        Ev_OnMain opToExec \<Rightarrow>
          op_type opToExec \<in> {OpType_UpdateStallAddr, OpType_EnqueueList, OpType_ReapplyGfxState}
      | _ \<Rightarrow> True)"

definition adds :: "(event \<Rightarrow> bool) \<Rightarrow> world \<Rightarrow> world \<Rightarrow> bool" where
  "adds P w w' \<longleftrightarrow> (\<exists>new. w' = w @ new \<and> list_all P new)"

text \<open>
  The handlers of a stretch of commands, one after the other, none of them being the
  last command of the sequence; \<open>None\<close> when the stretch holds an unsupported command.
\<close>

fun Run_handlers ::
  "sys \<Rightarrow> u8 list \<Rightarrow> Command list \<Rightarrow> DumpExecute \<Rightarrow> world \<Rightarrow> (DumpExecute \<times> world) option" where
  "Run_handlers S pushbuf [] D w = Some (D, w)"
| "Run_handlers S pushbuf (cmd # cmds) D w =
     (case Run_switch S pushbuf cmd False D w of
        None \<Rightarrow> None
      | Some (D', w') \<Rightarrow> Run_handlers S pushbuf cmds D' w')"

text \<open>
  A \<open>Framebuf\<close> payload: address \<open>0x04000000\<close>, buffer width 512, flags 2 (content
  unchanged), padding, then sixteen bytes of pixels.
\<close>

definition demo_framebuf :: "u8 list" where
  "demo_framebuf =
     [0x00, 0x00, 0x00, 0x04,  0x00, 0x02, 0x00, 0x00,  0x02, 0x00, 0x00, 0x00,  0, 0, 0, 0,
      1, 2, 3, 4, 5, 6, 7, 8, 9, 10, 11, 12, 13, 14, 15, 16]"

text \<open>
  The headroom of the list buffer: the write position lies in the buffer with at least
  eight bytes behind it, and the addresses of the buffer do not wrap around.
\<close>

definition list_headroom :: "DumpExecute \<Rightarrow> bool" where
  "list_headroom D \<longleftrightarrow>
     unat (execListBuf D) \<le> unat (execListPos D)
     \<and> unat (execListPos D) + 8 \<le> unat (execListBuf D) + unat LIST_BUF_SIZE
     \<and> unat (execListBuf D) + 2 * unat LIST_BUF_SIZE < 2 ^ 32"

text \<open>
  A first \<open>Registers\<close> command whose payload is as long as the list buffer, on the
  example machine.
\<close>

definition overrun_run :: "DumpExecute \<times> world" where
  "overrun_run = Registers demo_sys (replicate 262144 0) 0 0x40000 (DumpExecute_new 6) []"

subsection \<open>A bad capture, as the specification words it\<close>

text \<open>
  The layout of a capture after its header: the command count, the pushbuffer size, then
  two blocks, each a length in four bytes followed by that many compressed bytes.
  \<open>stream_block\<close> is the block at an offset (its bytes and the offset behind it), if
  the file is long enough. \<open>decompressed_length\<close> is the length the decompressor of the
  version reports for a stream, if it reports one, and \<open>written_bytes\<close> are the bytes it
  writes. A stream shows a \<open>length_mismatch\<close>
  when it does not decompress to the declared length: the decompressor reports another
  length, or it fails and reports none. \<open>bad_capture\<close> holds of a file whose magic is
  wrong, whose version is out of range, or one of whose two streams shows a length
  mismatch.
\<close>

definition stream_block :: "u8 list \<Rightarrow> nat \<Rightarrow> (u8 list \<times> nat) option" where
  "stream_block bytes pos =
     (if pos + 4 \<le> length bytes then
        (let n = unat (read_u32 bytes pos) in
         if pos + 4 + n \<le> length bytes then Some (take n (drop (pos + 4) bytes), pos + 4 + n)
         else None)
      else None)"

definition decompressed_length :: "fs \<Rightarrow> u32 \<Rightarrow> u8 list \<Rightarrow> nat \<Rightarrow> nat option" where
  "decompressed_length F ver compressed declared =
     (if ver < 5 then snd (snappy_uncompress F compressed declared)
      else Some (snd (ZSTD_decompress F compressed declared)))"

definition written_bytes :: "fs \<Rightarrow> u32 \<Rightarrow> u8 list \<Rightarrow> nat \<Rightarrow> u8 list" where
  "written_bytes F ver compressed declared =
     (if ver < 5 then fst (snappy_uncompress F compressed declared)
      else fst (ZSTD_decompress F compressed declared))"

definition length_mismatch :: "fs \<Rightarrow> u32 \<Rightarrow> u8 list \<Rightarrow> nat \<Rightarrow> bool" where
  "length_mismatch F ver compressed declared \<longleftrightarrow>
     decompressed_length F ver compressed declared \<noteq> Some declared"

definition bad_capture :: "fs \<Rightarrow> u8 list \<Rightarrow> bool" where
  "bad_capture F bytes =
     (let hb = take (sizeof_Header F) bytes;
          ver = header_version F hb;
          start = (if ver \<le> 3 then 12 else length hb);
          declared1 = sizeof_Command F * unat (read_u32 bytes start);
          declared2 = unat (read_u32 bytes (start + 4))
      in header_magic F hb \<noteq> HEADER_MAGIC F
         \<or> ver > VERSION F
         \<or> ver < MIN_VERSION F
         \<or> (case stream_block bytes (start + 8) of
               None \<Rightarrow> False
             | Some (c1, p1) \<Rightarrow>
                 length_mismatch F ver c1 declared1
                 \<or> (case stream_block bytes p1 of
                       None \<Rightarrow> False
                     | Some (c2, p2) \<Rightarrow> length_mismatch F ver c2 declared2)))"

text \<open>
  The narrower notions the loader does act on. A \<open>reported_mismatch\<close> is a length
  reported by the decompressor that differs from the declared one; \<open>reported_bad_capture\<close>
  is \<open>bad_capture\<close> with this notion in the place of \<open>length_mismatch\<close>.
\<close>

definition reported_mismatch :: "fs \<Rightarrow> u32 \<Rightarrow> u8 list \<Rightarrow> nat \<Rightarrow> bool" where
  "reported_mismatch F ver compressed declared =
     (case decompressed_length F ver compressed declared of
        None \<Rightarrow> False
      | Some n \<Rightarrow> n \<noteq> declared)"

definition reported_bad_capture :: "fs \<Rightarrow> u8 list \<Rightarrow> bool" where
  "reported_bad_capture F bytes =
     (let hb = take (sizeof_Header F) bytes;
          ver = header_version F hb;
          start = (if ver \<le> 3 then 12 else length hb);
          declared1 = sizeof_Command F * unat (read_u32 bytes start);
          declared2 = unat (read_u32 bytes (start + 4))
      in header_magic F hb \<noteq> HEADER_MAGIC F
         \<or> ver > VERSION F
         \<or> ver < MIN_VERSION F
         \<or> (case stream_block bytes (start + 8) of
               None \<Rightarrow> False
             | Some (c1, p1) \<Rightarrow>
                 reported_mismatch F ver c1 declared1
                 \<or> (case stream_block bytes p1 of
                       None \<Rightarrow> False
                     | Some (c2, p2) \<Rightarrow> reported_mismatch F ver c2 declared2)))"

subsection \<open>The caller of the entry point\<close>

text \<open>
  \<open>run_event\<close> excludes only the hand-over of a \<open>Done\<close> or \<open>None\<close> operation, and
  \<open>quiet_event\<close> every hand-over. \<open>Run_ops\<close> are the operations \<open>Run\<close> hands to the main
  context when the replay thread is started in the state \<open>G\<close> and the world \<open>w\<close>.
  \<open>entry_calls\<close> is the caller invoking \<open>RunMountedReplay\<close> once for each world of a
  list, collecting the results.
\<close>

definition run_event :: "event \<Rightarrow> bool" where
  "run_event e =
     (case e of
        Ev_OnMain opToExec \<Rightarrow> op_type opToExec \<noteq> OpType_Done \<and> op_type opToExec \<noteq> OpType_None
      | _ \<Rightarrow> True)"

definition quiet_event :: "event \<Rightarrow> bool" where
  "quiet_event e = (case e of Ev_OnMain opToExec \<Rightarrow> False | _ \<Rightarrow> True)"

definition Run_ops :: "sys \<Rightarrow> globals \<Rightarrow> world \<Rightarrow> Operation list" where
  "Run_ops S G w =
     posted (drop (length w)
       (snd (snd (Run S (g_cancelled G) (lastExecPushbuf G) (lastExecCommands G)
                    (DumpExecute_new (lastExecVersion G)) w))))"

fun entry_calls ::
  "sys \<Rightarrow> fs \<Rightarrow> string \<Rightarrow> world list \<Rightarrow> globals \<Rightarrow> (ReplayResult list \<times> globals) option" where
  "entry_calls S F filename [] G = Some ([], G)"
| "entry_calls S F filename (w # ws) G =
     (case RunMountedReplay S F w filename G of
        None \<Rightarrow> None
      | Some (r, G') \<Rightarrow>
          (case entry_calls S F filename ws G' of
             None \<Rightarrow> None
           | Some (rs, G'') \<Rightarrow> Some (r # rs, G'')))"

subsection \<open>Concrete captures and cached replay state\<close>

text \<open>
  A capture of format version 6 with a 24-byte header: one command and four pushbuffer
  bytes declared, a first stream of five bytes and a second of four. In the example file
  system both codecs store the bytes as they are, so the first stream has length 5 where
  12 bytes (one command) are declared.
\<close>

definition demo_capture :: "u8 list" where
  "demo_capture =
     [0x50, 0x50, 0x53, 0x53, 0x50, 0x50, 0x47, 0x45,   6, 0, 0, 0,
      0, 0, 0, 0, 0, 0, 0, 0, 0, 0, 0, 0,
      1, 0, 0, 0,   4, 0, 0, 0,
      5, 0, 0, 0,   1, 2, 3, 4, 5,
      4, 0, 0, 0,   9, 9, 9, 9]"

text \<open>
  A capture of format version 4, which the legacy codec reads: one command and four
  pushbuffer bytes declared, a first stream of twelve bytes and a second stream of six
  bytes, two more than the pushbuffer is declared to have.
\<close>

definition legacy_stream1 :: "u8 list" where
  "legacy_stream1 = [0, 0, 0, 0, 0, 0, 0, 0, 0, 0, 0, 0]"

definition legacy_stream2 :: "u8 list" where
  "legacy_stream2 = [9, 9, 9, 9, 9, 9]"

definition legacy_capture :: "u8 list" where
  "legacy_capture =
     [0x50, 0x50, 0x53, 0x53, 0x50, 0x50, 0x47, 0x45,   4, 0, 0, 0,
      0, 0, 0, 0, 0, 0, 0, 0, 0, 0, 0, 0,
      1, 0, 0, 0,   4, 0, 0, 0,
      12, 0, 0, 0,  0, 0, 0, 0, 0, 0, 0, 0, 0, 0, 0, 0,
      6, 0, 0, 0,   9, 9, 9, 9, 9, 9]"

definition demo_magic :: "u8 list" where
  "demo_magic = [0x50, 0x50, 0x53, 0x53, 0x50, 0x50, 0x47, 0x45]"

text \<open>
  The example file system. The legacy decompressor behaves as the library's C interface
  does: when the output does not fit the capacity passed in, it writes nothing, stores
  no length and returns an error status; otherwise it writes the output and stores its
  length. The block decompressor returns the length of the output.
\<close>

definition demo_fs :: fs where
  "demo_fs =
     \<lparr>file_contents =
        (\<lambda>name. if name = ''frame.ppdmp'' then demo_capture
                else if name = ''legacy.ppdmp'' then legacy_capture else []),
      sizeof_Header = 24,
      header_magic = take 8,
      header_version = (\<lambda>hb. read_u32 hb 8),
      HEADER_MAGIC = demo_magic,
      VERSION = 6,
      MIN_VERSION = 2,
      sizeof_Command = 12,
      encode_commands = (\<lambda>commands. []),
      decode_commands = (\<lambda>bytes. []),
      snappy_uncompress =
        (\<lambda>compressed cap. if cap < length compressed then ([], None)
                          else (compressed, Some (length compressed))),
      ZSTD_decompress = (\<lambda>compressed cap. (compressed, length compressed))\<rparr>"

text \<open>Loading the legacy capture, and the entry point called for it, from the initial state.\<close>

definition legacy_load :: "u32 \<times> globals" where
  "legacy_load = LoadReplay demo_fs ''legacy.ppdmp'' globals_init"

definition legacy_run :: "(ReplayResult \<times> globals) option" where
  "legacy_run = RunMountedReplay demo_sys demo_fs [] ''legacy.ppdmp'' globals_init"

text \<open>
  The state after a capture was loaded whose second command has an unsupported type.
\<close>

definition demo_commands :: "Command list" where
  "demo_commands =
     [\<lparr>cmd_type = REGISTERS, cmd_ptr = 0, cmd_sz = 4\<rparr>,
      \<lparr>cmd_type = UNKNOWN 99, cmd_ptr = 0, cmd_sz = 0\<rparr>]"

definition demo_pushbuf :: "u8 list" where
  "demo_pushbuf = [0, 0, 0, 0]"

definition demo_globals :: globals where
  "demo_globals =
     globals_init\<lparr>lastExecFilename := ''cached.ppdmp'', lastExecVersion := 6,
                  lastExecCommands := demo_commands, lastExecPushbuf := demo_pushbuf\<rparr>"

section \<open>Properties\<close>

subsection \<open>Facts about the mapper\<close>

lemma MapSlab_scan_Miss:
  "MapSlab_scan gen slabs pos best is = Miss b \<Longrightarrow>
     (b = best \<or> b \<in> set is)
     \<and> Slab_Age gen (slabs ! best) \<le> Slab_Age gen (slabs ! b)
     \<and> (\<forall>i\<in>set is. Slab_Age gen (slabs ! i) \<le> Slab_Age gen (slabs ! b))
     \<and> (\<forall>i\<in>set is. \<not> Slab_Matches (slabs ! i) pos)"
proof (induction "is" arbitrary: best)
  case Nil
  then show ?case by simp
next
  case (Cons i "is")
  from Cons.prems have nm: "\<not> Slab_Matches (slabs ! i) pos"
    by (auto split: if_splits)
  let ?best' = "if Slab_Age gen (slabs ! i) > Slab_Age gen (slabs ! best) then i else best"
  from Cons.prems nm have "MapSlab_scan gen slabs pos ?best' is = Miss b"
    by simp
  from Cons.IH [OF this] nm show ?case
    by (auto split: if_splits)
qed

lemma MapSlab_scan_no_match:
  "\<forall>i\<in>set is. \<not> Slab_Matches (slabs ! i) pos \<Longrightarrow>
     \<exists>b. MapSlab_scan gen slabs pos best is = Miss b"
  by (induction "is" arbitrary: best) auto

lemma Slab_Setup_fail:
  "Slab_Setup S pb gen s pos w = (False, gen', s1, w1) \<Longrightarrow> s1 = s \<and> gen' = gen"
  by (auto simp: Slab_Setup_def Slab_Alloc_def Let_def split: if_splits prod.splits)

lemma Slab_Setup_ok:
  "Slab_Setup S pb gen s pos w = (True, gen', s1, w1) \<Longrightarrow>
     slab_buf_pointer s1 = pos \<and> slab_psp_pointer s1 \<noteq> 0 \<and> gen' = gen + 1 \<and> slab_last_used s1 = gen + 1"
  by (auto simp: Slab_Setup_def Slab_Alloc_def Let_def split: if_splits prod.splits)


lemma Extra_Free_eq: "Extra_Free e w = (Extra_freed e, w @ free_event (extra_psp_pointer e))"
  by (simp add: Extra_Free_def Extra_freed_def free_event_def)

lemma Extra_freed_psp [simp]: "extra_psp_pointer (Extra_freed e) = 0"
  by (simp add: Extra_freed_def)

lemma Extra_freed_idem [simp]: "Extra_freed (Extra_freed e) = Extra_freed e"
  by (simp add: Extra_freed_def)

lemma free_event_0 [simp]: "free_event 0 = []"
  by (simp add: free_event_def)

lemma Extra_FreeAll_length: "length (fst (Extra_FreeAll is extra w)) = length extra"
  by (induction "is" arbitrary: extra w) (auto simp: Extra_Free_eq)

lemma Extra_FreeAll_nth:
  "j < length extra \<Longrightarrow>
     fst (Extra_FreeAll is extra w) ! j = (if j \<in> set is then Extra_freed (extra ! j) else extra ! j)"
proof (induction "is" arbitrary: extra w)
  case Nil
  then show ?case by simp
next
  case (Cons i "is")
  then show ?case
    by (cases "i = j") (auto simp: Extra_Free_eq)
qed

lemma Extra_FreeAll_world_idx:
  "distinct is \<Longrightarrow>
     snd (Extra_FreeAll is extra w) =
       w @ concat (map (\<lambda>j. free_event (extra_psp_pointer (extra ! j))) is)"
proof (induction "is" arbitrary: extra w)
  case Nil
  then show ?case by simp
next
  case (Cons i "is")
  have cong: "map (\<lambda>j. free_event (extra_psp_pointer (extra[i := Extra_freed (extra ! i)] ! j))) is
            = map (\<lambda>j. free_event (extra_psp_pointer (extra ! j))) is"
    proof (intro map_cong refl)
    fix j assume "j \<in> set is"
    with Cons.prems have "i \<noteq> j" by auto
    then show "free_event (extra_psp_pointer (extra[i := Extra_freed (extra ! i)] ! j))
                = free_event (extra_psp_pointer (extra ! j))"
      by simp
  qed
  from Cons.prems have d: "distinct is" by simp
  have "snd (Extra_FreeAll (i # is) extra w) =
          snd (Extra_FreeAll is (extra[i := Extra_freed (extra ! i)])
                 (w @ free_event (extra_psp_pointer (extra ! i))))"
    by (simp add: Extra_Free_eq)
  also have "\<dots> = (w @ free_event (extra_psp_pointer (extra ! i)))
                    @ concat (map (\<lambda>j. free_event (extra_psp_pointer (extra ! j))) is)"
    unfolding Cons.IH [OF d] cong ..
  finally show ?case by simp
qed

lemma Extra_FreeAll_all:
  assumes "length extra = EXTRA_COUNT"
  shows "Extra_FreeAll [0..<EXTRA_COUNT] extra w =
           (map Extra_freed extra, w @ concat (map (\<lambda>e. free_event (extra_psp_pointer e)) extra))"
proof -
  have "fst (Extra_FreeAll [0..<EXTRA_COUNT] extra w) = map Extra_freed extra"
    by (rule nth_equalityI) (use assms in \<open>simp_all add: Extra_FreeAll_length Extra_FreeAll_nth\<close>)
  moreover have "map (\<lambda>j. free_event (extra_psp_pointer (extra ! j))) [0..<EXTRA_COUNT]
                   = map (\<lambda>e. free_event (extra_psp_pointer e)) extra"
  proof -
    have "map (\<lambda>e. free_event (extra_psp_pointer e)) extra
            = map (\<lambda>e. free_event (extra_psp_pointer e)) (map ((!) extra) [0..<length extra])"
      by (simp only: map_nth)
    also have "\<dots> = map (\<lambda>j. free_event (extra_psp_pointer (extra ! j))) [0..<length extra]"
      by (simp add: comp_def)
    finally show ?thesis using assms by simp
  qed
  ultimately show ?thesis
    using Extra_FreeAll_world_idx [of "[0..<EXTRA_COUNT]" extra w]
    by (simp add: prod_eq_iff)
qed

lemma MapExtra_scan_None:
  "MapExtra_scan extra bufpos sz is = None \<longleftrightarrow> (\<forall>i\<in>set is. \<not> Extra_Matches (extra ! i) bufpos sz)"
  by (induction "is") auto

lemma Extra_Alloc_eq:
  "Extra_Alloc S e bufpos sz w =
     (let w1 = w @ free_event (extra_psp_pointer e);
          r = userMemory_Alloc S w1 sz False;
          w2 = w1 @ [Ev_Alloc sz False ''Straddle extra'' r]
      in if alloc_ok r
         then (True, \<lparr>extra_psp_pointer = r, extra_buf_pointer = bufpos, extra_size = sz\<rparr>,
               w2 @ [Ev_MemcpyPushbuf r (unat bufpos) sz])
         else (False, Extra_freed e, w2))"
  by (auto simp: Extra_Alloc_def Extra_Free_eq Let_def alloc_ok_def Extra_freed_def)

lemma MapExtra_miss_eq:
  assumes len: "length (bm_extra m) = EXTRA_COUNT"
    and off: "bm_extraOffset m < EXTRA_COUNT"
    and miss: "\<forall>e\<in>set (bm_extra m). \<not> Extra_Matches e bufpos sz"
  shows "MapExtra S pushbuf flush bufpos sz m w = MapExtra_miss_spec S flush bufpos sz m w"
proof -
  let ?i = "bm_extraOffset m"
  let ?old = "bm_extra m ! ?i"
  have scan: "MapExtra_scan (bm_extra m) bufpos sz [0..<EXTRA_COUNT] = None"
    using miss len by (simp add: MapExtra_scan_None)
  let ?x0 = "(bm_extra m)[?i := Extra_freed ?old]"
  have l0: "length ?x0 = EXTRA_COUNT" using len by simp
  have x2: "map Extra_freed ?x0 = map Extra_freed (bm_extra m)"
    using len off by (simp add: map_update list_update_same_conv)
  have nthi: "map Extra_freed (bm_extra m) ! ?i = Extra_freed ?old"
    using len off by simp
  show ?thesis
    using scan len off
    by (simp add: MapExtra_def MapExtra_miss_spec_def Let_def Extra_Alloc_eq
          Extra_FreeAll_all [OF l0] x2 nthi list_update_same_conv del: append_assoc)
qed

lemma MapSlab_scan_Hit:
  "MapSlab_scan gen slabs pos best is = Hit i \<Longrightarrow> i \<in> set is \<and> Slab_Matches (slabs ! i) pos"
  by (induction "is" arbitrary: best) (auto split: if_splits)

lemma MapSlab_scan_Hit_cong:
  "MapSlab_scan gen slabs pos best is = Hit i \<Longrightarrow>
   \<forall>j\<in>set is. Slab_Matches (slabs' ! j) pos = Slab_Matches (slabs ! j) pos \<Longrightarrow>
   MapSlab_scan gen' slabs' pos best' is = Hit i"
  by (induction "is" arbitrary: best best') (auto split: if_splits)

lemma MapExtra_scan_unique:
  "i \<in> set is \<Longrightarrow> Extra_Matches (extra ! i) bufpos sz \<Longrightarrow>
   \<forall>j\<in>set is. j \<noteq> i \<longrightarrow> \<not> Extra_Matches (extra ! j) bufpos sz \<Longrightarrow>
   MapExtra_scan extra bufpos sz is = Some i"
  by (induction "is") auto

lemma MapExtra_scan_Some:
  "MapExtra_scan extra bufpos sz is = Some i \<Longrightarrow> i \<in> set is \<and> Extra_Matches (extra ! i) bufpos sz"
  by (induction "is") (auto split: if_splits)

lemma Extra_freed_no_match: "\<not> Extra_Matches (Extra_freed e) bufpos sz"
  by (simp add: Extra_Matches_def)

lemma Map_slab_repeat:
  assumes lenS: "length (bm_slabs m) = SLAB_COUNT"
    and last: "bm_lastSlab m < SLAB_COUNT"
    and single: "bufpos div SLAB_SIZE = (bufpos + sz - 1) div SLAB_SIZE"
    and first: "Map S pushbuf flush bufpos sz m w = (a, m', w')"
    and ok: "a \<noteq> 0"
  shows "\<exists>m''. Map S pushbuf flush2 bufpos sz m' w' = (a, m'', w')
            \<and> bm_slabGeneration m'' = bm_slabGeneration m'
            \<and> bm_extra m'' = bm_extra m' \<and> bm_extraOffset m'' = bm_extraOffset m'"
proof -
  let ?pos = "(bufpos div SLAB_SIZE) * SLAB_SIZE"
  let ?gen = "bm_slabGeneration m"
  show ?thesis
  proof (cases "Slab_Matches (bm_slabs m ! bm_lastSlab m) ?pos")
    case True
    with first single have
      m': "m' = m\<lparr>bm_slabs := (bm_slabs m)[bm_lastSlab m := (bm_slabs m ! bm_lastSlab m)\<lparr>slab_last_used := ?gen\<rparr>]\<rparr>"
      and a: "a = slab_psp_pointer (bm_slabs m ! bm_lastSlab m) + (bufpos - slab_buf_pointer (bm_slabs m ! bm_lastSlab m))"
      and w': "w' = w"
      by (auto simp: Map_def Let_def Slab_Ptr_def)
    show ?thesis
      using True single lenS last
      by (simp add: m' a w' Map_def Let_def Slab_Ptr_def Slab_Matches_def)
  next
    case False
    with first single have ms: "MapSlab S pushbuf flush bufpos m w = (a, m', w')"
      by (simp add: Map_def Let_def)
    show ?thesis
    proof (cases "MapSlab_scan ?gen (bm_slabs m) ?pos 0 [0..<SLAB_COUNT]")
      case (Hit i)
      from MapSlab_scan_Hit [OF Hit] have ilt: "i < SLAB_COUNT" and mi: "Slab_Matches (bm_slabs m ! i) ?pos"
        by simp_all
      from mi False have neq: "bm_lastSlab m \<noteq> i" by auto
      let ?slabs' = "(bm_slabs m)[i := (bm_slabs m ! i)\<lparr>slab_last_used := ?gen\<rparr>]"
      from ms Hit have
        m': "m' = m\<lparr>bm_slabs := ?slabs'\<rparr>"
        and a: "a = slab_psp_pointer (bm_slabs m ! i) + (bufpos - slab_buf_pointer (bm_slabs m ! i))"
        and w': "w' = w"
        by (auto simp: MapSlab_def Let_def Slab_Ptr_def)
      have same: "\<forall>j\<in>set [0..<SLAB_COUNT]. Slab_Matches (?slabs' ! j) ?pos = Slab_Matches (bm_slabs m ! j) ?pos"
        using lenS ilt by (auto simp: nth_list_update Slab_Matches_def)
      have scan': "MapSlab_scan ?gen ?slabs' ?pos 0 [0..<SLAB_COUNT] = Hit i"
        by (rule MapSlab_scan_Hit_cong [OF Hit same])
      have nl: "\<not> Slab_Matches (?slabs' ! bm_lastSlab m) ?pos"
        using False neq by simp
      show ?thesis
        using nl scan' single lenS ilt
        by (simp add: m' a w' Map_def MapSlab_def Let_def Slab_Ptr_def)
    next
      case (Miss b)
      from MapSlab_scan_Miss [OF Miss] have "b = 0 \<or> b \<in> set [0..<SLAB_COUNT]" by blast
      then have blt: "b < SLAB_COUNT" by (auto simp: SLAB_COUNT_def)
      obtain ok' gen' s1 w1 where
        stp: "Slab_Setup S pushbuf ?gen (bm_slabs m ! b) ?pos (flush w) = (ok', gen', s1, w1)"
        by (cases "Slab_Setup S pushbuf ?gen (bm_slabs m ! b) ?pos (flush w)") auto
      have ok': "ok'"
      proof (rule ccontr)
        assume "\<not> ok'"
        with ms Miss stp have "a = 0" by (simp add: MapSlab_def Let_def)
        with ok show False by simp
      qed
      with stp have stp': "Slab_Setup S pushbuf ?gen (bm_slabs m ! b) ?pos (flush w) = (True, gen', s1, w1)"
        by simp
      from Slab_Setup_ok [OF stp'] have s1: "slab_buf_pointer s1 = ?pos" "slab_psp_pointer s1 \<noteq> 0"
        by simp_all
      from ms Miss stp ok' have
        m': "m' = m\<lparr>bm_slabGeneration := gen', bm_slabs := (bm_slabs m)[b := s1\<lparr>slab_last_used := gen'\<rparr>],
                   bm_lastSlab := b\<rparr>"
        and a: "a = slab_psp_pointer s1 + (bufpos - slab_buf_pointer s1)"
        and w': "w' = w1"
        by (auto simp: MapSlab_def Let_def Slab_Ptr_def)
      show ?thesis
        using s1 single lenS blt
        by (simp add: m' a w' Map_def Let_def Slab_Ptr_def Slab_Matches_def)
    qed
  qed
qed

lemma Map_extra_repeat:
  assumes lenE: "length (bm_extra m) = EXTRA_COUNT"
    and off: "bm_extraOffset m < EXTRA_COUNT"
    and straddle: "bufpos div SLAB_SIZE \<noteq> (bufpos + sz - 1) div SLAB_SIZE"
    and first: "Map S pushbuf flush bufpos sz m w = (a, m', w')"
    and ok: "a \<noteq> 0"
  shows "\<exists>m''. Map S pushbuf flush2 bufpos sz m' w' = (a, m'', w')
            \<and> bm_slabGeneration m'' = bm_slabGeneration m'
            \<and> bm_extra m'' = bm_extra m' \<and> bm_extraOffset m'' = bm_extraOffset m'"
proof -
  from first straddle have me: "MapExtra S pushbuf flush bufpos sz m w = (a, m', w')"
    by (simp add: Map_def Let_def)
  have goal: "MapExtra_scan (bm_extra m') bufpos sz [0..<EXTRA_COUNT] = Some i
              \<Longrightarrow> extra_psp_pointer (bm_extra m' ! i) = a \<Longrightarrow> ?thesis" for i
    using straddle by (simp add: Map_def MapExtra_def Let_def)
  show ?thesis
  proof (cases "MapExtra_scan (bm_extra m) bufpos sz [0..<EXTRA_COUNT]")
    case (Some i)
    with me have "m' = m" "a = extra_psp_pointer (bm_extra m ! i)"
      by (auto simp: MapExtra_def)
    with Some goal show ?thesis by simp
  next
    case None
    then have miss: "\<forall>e\<in>set (bm_extra m). \<not> Extra_Matches e bufpos sz"
      using lenE by (auto simp: MapExtra_scan_None in_set_conv_nth)
    let ?i = "bm_extraOffset m"
    have spec: "MapExtra_miss_spec S flush bufpos sz m w = (a, m', w')"
      using MapExtra_miss_eq [OF lenE off miss] me by simp
    let ?new = "\<lparr>extra_psp_pointer = a, extra_buf_pointer = bufpos, extra_size = sz\<rparr>"
    from spec ok have ex: "bm_extra m' = (bm_extra m)[?i := ?new] \<or> bm_extra m' = (map Extra_freed (bm_extra m))[?i := ?new]"
      by (auto simp: MapExtra_miss_spec_def Let_def split: if_splits)
    have mi: "Extra_Matches (bm_extra m' ! ?i) bufpos sz" and pi: "extra_psp_pointer (bm_extra m' ! ?i) = a"
      using ex lenE off ok by (auto simp: Extra_Matches_def)
    have others: "\<forall>j\<in>set [0..<EXTRA_COUNT]. j \<noteq> ?i \<longrightarrow> \<not> Extra_Matches (bm_extra m' ! j) bufpos sz"
      using ex lenE miss by (auto simp: Extra_freed_no_match)
    have "MapExtra_scan (bm_extra m') bufpos sz [0..<EXTRA_COUNT] = Some ?i"
      by (rule MapExtra_scan_unique) (use off mi others in auto)
    with goal pi show ?thesis by blast
  qed
qed

lemma MapSlab_scan_unallocated:
  "\<forall>i\<in>set is. slab_psp_pointer (slabs ! i) = 0 \<Longrightarrow> slab_psp_pointer (slabs ! best) = 0 \<Longrightarrow>
     MapSlab_scan gen slabs pos best is = Miss best"
  by (induction "is") (auto simp: Slab_Matches_def Slab_Age_def)

lemma BufMapping_new_slab [simp]:
  "i < SLAB_COUNT \<Longrightarrow> bm_slabs BufMapping_new ! i =
     \<lparr>slab_psp_pointer = 0, slab_buf_pointer = 0, slab_last_used = 0\<rparr>"
  by (simp add: BufMapping_new_def)

lemma BufMapping_new_extra [simp]:
  "i < EXTRA_COUNT \<Longrightarrow> bm_extra BufMapping_new ! i =
     \<lparr>extra_psp_pointer = 0, extra_buf_pointer = 0, extra_size = 0\<rparr>"
  by (simp add: BufMapping_new_def)

lemma BufMapping_new_length [simp]:
  "length (bm_slabs BufMapping_new) = SLAB_COUNT" "length (bm_extra BufMapping_new) = EXTRA_COUNT"
  "bm_lastSlab BufMapping_new = 0" "bm_extraOffset BufMapping_new = 0"
  "bm_slabGeneration BufMapping_new = 0"
  by (simp_all add: BufMapping_new_def)

lemma Map_nomem_slab:
  "Map nomem_sys pushbuf flush 0 16 BufMapping_new w =
     (0, BufMapping_new, flush w @ [Ev_Alloc SLAB_SIZE False ''Slab'' (- 1)])"
proof -
  have scan: "MapSlab_scan 0 (bm_slabs BufMapping_new) 0 0 [0..<SLAB_COUNT] = Miss 0"
    by (rule MapSlab_scan_unallocated) (simp_all add: SLAB_COUNT_def)
  have z: "0 < SLAB_COUNT" by (simp add: SLAB_COUNT_def)
  have upd: "(bm_slabs BufMapping_new)[0 := \<lparr>slab_psp_pointer = 0, slab_buf_pointer = 0, slab_last_used = 0\<rparr>]
               = bm_slabs BufMapping_new"
    using z BufMapping_new_slab [of 0] list_update_id [of "bm_slabs BufMapping_new" 0] by simp
  show ?thesis
    using z
    by (simp add: Map_def MapSlab_def Let_def scan upd Slab_Matches_def Slab_Setup_def Slab_Alloc_def
          nomem_sys_def SLAB_SIZE_def)
qed


lemma demo_full_simps:
  "length (bm_slabs demo_full) = SLAB_COUNT" "bm_lastSlab demo_full < SLAB_COUNT"
  "length (bm_extra demo_full) = EXTRA_COUNT" "bm_extraOffset demo_full < EXTRA_COUNT"
  by (simp_all add: demo_full_def demo_slabs_def SLAB_COUNT_def EXTRA_COUNT_def BufMapping_new_def)

lemma demo_full_miss:
  "\<forall>s\<in>set (bm_slabs demo_full). \<not> Slab_Matches s ((0xA00000 div SLAB_SIZE) * SLAB_SIZE)"
  by (simp add: demo_full_def demo_slabs_def demo_slab_def Slab_Matches_def SLAB_SIZE_def)

lemma single_demo: "(0xA00000 :: u32) div SLAB_SIZE = (0xA00000 + 16 - 1) div SLAB_SIZE"
  by (simp add: SLAB_SIZE_def)

lemma demo_full_hit:
  "Map demo_sys [] id 0x800000 16 demo_full [] = (0x09000000, demo_full, [])"
  by (simp add: Map_def Let_def demo_full_def demo_slabs_def demo_slab_def SLAB_SIZE_def
        Slab_Matches_def Slab_Ptr_def BufMapping_new_def)

subsection \<open>The slab path\<close>

text \<open>
  Claim C3. On a miss of the single-slab path (the range lies in one slab-aligned window
  and no slab mirrors that window) the slab that \<open>Map\<close> takes over has the greatest age
  of all slabs at that moment; an unallocated slab has the age \<open>INT_MAX\<close>. Every other
  slab is left as it was. Either the allocation failed, \<open>Map\<close> returned 0 and the mapper
  is unchanged, or the chosen slab now mirrors the window, carries the new generation
  stamp and is the most recent slab. This holds in every state of the mapper, hence at
  every miss of every sequence of calls.
\<close>

theorem Map_slab_miss_evicts_oldest:
  assumes len: "length (bm_slabs m) = SLAB_COUNT"
    and single: "bufpos div SLAB_SIZE = (bufpos + sz - 1) div SLAB_SIZE"
    and miss: "\<forall>s\<in>set (bm_slabs m). \<not> Slab_Matches s ((bufpos div SLAB_SIZE) * SLAB_SIZE)"
    and last: "bm_lastSlab m < SLAB_COUNT"
    and res: "Map S pushbuf flush bufpos sz m w = (a, m', w')"
  shows "\<exists>best<SLAB_COUNT.
           (\<forall>s\<in>set (bm_slabs m).
              Slab_Age (bm_slabGeneration m) s
                \<le> Slab_Age (bm_slabGeneration m) (bm_slabs m ! best))
         \<and> (\<forall>i<SLAB_COUNT. i \<noteq> best \<longrightarrow> bm_slabs m' ! i = bm_slabs m ! i)
         \<and> (a = 0 \<and> m' = m
              \<or> bm_lastSlab m' = best
               \<and> slab_buf_pointer (bm_slabs m' ! best) = (bufpos div SLAB_SIZE) * SLAB_SIZE
               \<and> slab_psp_pointer (bm_slabs m' ! best) \<noteq> 0
               \<and> slab_last_used (bm_slabs m' ! best) = bm_slabGeneration m'
               \<and> a = slab_psp_pointer (bm_slabs m' ! best)
                       + (bufpos - (bufpos div SLAB_SIZE) * SLAB_SIZE))"
proof -
  let ?pos = "(bufpos div SLAB_SIZE) * SLAB_SIZE"
  let ?gen = "bm_slabGeneration m"
  have nomatch: "\<forall>i\<in>set [0..<SLAB_COUNT]. \<not> Slab_Matches (bm_slabs m ! i) ?pos"
    using miss len by simp
  then obtain b where scan: "MapSlab_scan ?gen (bm_slabs m) ?pos 0 [0..<SLAB_COUNT] = Miss b"
    using MapSlab_scan_no_match by blast
  from MapSlab_scan_Miss [OF scan]
  have b: "b = 0 \<or> b \<in> set [0..<SLAB_COUNT]"
    and age: "\<forall>i\<in>set [0..<SLAB_COUNT]. Slab_Age ?gen (bm_slabs m ! i) \<le> Slab_Age ?gen (bm_slabs m ! b)"
    by blast+
  have blt: "b < SLAB_COUNT" using b by (auto simp: SLAB_COUNT_def)
  have age': "\<forall>s\<in>set (bm_slabs m). Slab_Age ?gen s \<le> Slab_Age ?gen (bm_slabs m ! b)"
    using age len by (auto simp: in_set_conv_nth)
  have nl: "\<not> Slab_Matches (bm_slabs m ! bm_lastSlab m) ?pos"
    using miss last len by simp
  have res': "MapSlab S pushbuf flush bufpos m w = (a, m', w')"
    using res single nl by (simp add: Map_def Let_def)
  obtain ok gen' s1 w1 where
    stp: "Slab_Setup S pushbuf ?gen (bm_slabs m ! b) ?pos (flush w) = (ok, gen', s1, w1)"
    by (cases "Slab_Setup S pushbuf ?gen (bm_slabs m ! b) ?pos (flush w)") auto
  show ?thesis
  proof (cases ok)
    case False
    with stp have stp': "Slab_Setup S pushbuf ?gen (bm_slabs m ! b) ?pos (flush w) = (False, gen', s1, w1)"
      by simp
    from Slab_Setup_fail [OF stp'] have "s1 = bm_slabs m ! b" by simp
    with res' scan stp False have "a = 0" "m' = m"
      by (auto simp: MapSlab_def Let_def)
    with blt age' show ?thesis by auto
  next
    case True
    with stp have stp': "Slab_Setup S pushbuf ?gen (bm_slabs m ! b) ?pos (flush w) = (True, gen', s1, w1)"
      by simp
    from Slab_Setup_ok [OF stp'] have s1: "slab_buf_pointer s1 = ?pos" "slab_psp_pointer s1 \<noteq> 0"
      by simp_all
    from res' scan stp True have
      m': "m' = m\<lparr>bm_slabGeneration := gen', bm_slabs := (bm_slabs m)[b := s1\<lparr>slab_last_used := gen'\<rparr>],
                 bm_lastSlab := b\<rparr>"
      by (auto simp: MapSlab_def Let_def Slab_Ptr_def)
    from res' scan stp True have
      a: "a = slab_psp_pointer s1 + (bufpos - slab_buf_pointer s1)"
      by (auto simp: MapSlab_def Let_def Slab_Ptr_def)
    have "bm_lastSlab m' = b
               \<and> slab_buf_pointer (bm_slabs m' ! b) = ?pos
               \<and> slab_psp_pointer (bm_slabs m' ! b) \<noteq> 0
               \<and> slab_last_used (bm_slabs m' ! b) = bm_slabGeneration m'
               \<and> a = slab_psp_pointer (bm_slabs m' ! b) + (bufpos - ?pos)"
      using m' s1 blt len a by simp
    moreover have "\<forall>i<SLAB_COUNT. i \<noteq> b \<longrightarrow> bm_slabs m' ! i = bm_slabs m ! i"
      using m' by simp
    ultimately show ?thesis using blt age' by blast
  qed
qed

theorem Map_slab_miss_evicts_oldest_witness:
  "\<exists>best<SLAB_COUNT.
      (\<forall>s\<in>set (bm_slabs demo_full).
          Slab_Age (bm_slabGeneration demo_full) s
            \<le> Slab_Age (bm_slabGeneration demo_full) (bm_slabs demo_full ! best))
    \<and> (\<forall>i<SLAB_COUNT. i \<noteq> best \<longrightarrow>
          bm_slabs (fst (snd (Map demo_sys [] id 0xA00000 16 demo_full []))) ! i
            = bm_slabs demo_full ! i)"
  using Map_slab_miss_evicts_oldest
      [OF demo_full_simps(1) single_demo demo_full_miss demo_full_simps(2),
       where a = "fst (Map demo_sys [] id 0xA00000 16 demo_full [])"
         and m' = "fst (snd (Map demo_sys [] id 0xA00000 16 demo_full []))"
         and w' = "snd (snd (Map demo_sys [] id 0xA00000 16 demo_full []))"
         and S = demo_sys and pushbuf = "[]" and flush = id and w = "[]"]
  by auto

subsection \<open>The extra path\<close>

text \<open>
  Claim C4. On a miss of the extra path \<open>MapExtra\<close> does what \<open>MapExtra_miss_spec\<close>
  describes: after the flush it takes the slot \<open>extraOffset_\<close> points at, whatever was
  used when, and advances \<open>extraOffset_\<close> by one modulo 10; it frees what the slot held,
  allocates the range and copies it; when that allocation fails it frees every extra
  entry once and tries the same slot again; when this fails too, it returns 0.
\<close>

theorem MapExtra_miss_round_robin:
  assumes "length (bm_extra m) = EXTRA_COUNT"
    and "bm_extraOffset m < EXTRA_COUNT"
    and "\<forall>e\<in>set (bm_extra m). \<not> Extra_Matches e bufpos sz"
  shows "MapExtra S pushbuf flush bufpos sz m w = MapExtra_miss_spec S flush bufpos sz m w
       \<and> bm_extraOffset (fst (snd (MapExtra S pushbuf flush bufpos sz m w)))
           = (bm_extraOffset m + 1) mod EXTRA_COUNT"
proof -
  have eq: "MapExtra S pushbuf flush bufpos sz m w = MapExtra_miss_spec S flush bufpos sz m w"
    using assms by (rule MapExtra_miss_eq)
  have "bm_extraOffset (fst (snd (MapExtra_miss_spec S flush bufpos sz m w)))
          = (bm_extraOffset m + 1) mod EXTRA_COUNT"
    by (simp add: MapExtra_miss_spec_def Let_def)
  with eq show ?thesis by simp
qed

theorem MapExtra_miss_round_robin_witness:
  "MapExtra nomem_sys [] id 0xFFFF0 32 BufMapping_new []
     = MapExtra_miss_spec nomem_sys id 0xFFFF0 32 BufMapping_new []
   \<and> bm_extraOffset (fst (snd (MapExtra nomem_sys [] id 0xFFFF0 32 BufMapping_new []))) = 1"
proof -
  have miss: "\<forall>e\<in>set (bm_extra BufMapping_new). \<not> Extra_Matches e 0xFFFF0 32"
    by (simp add: BufMapping_new_def Extra_Matches_def)
  have off: "bm_extraOffset BufMapping_new < EXTRA_COUNT"
    by (simp add: EXTRA_COUNT_def)
  have nxt: "(bm_extraOffset BufMapping_new + 1) mod EXTRA_COUNT = 1"
    by (simp add: EXTRA_COUNT_def)
  show ?thesis
    using MapExtra_miss_round_robin [OF BufMapping_new_length(2) off miss,
        of nomem_sys "[]" id "[]"]
    unfolding nxt .
qed

subsection \<open>Repeated calls\<close>

text \<open>
  With the memory exhausted, \<open>Map\<close> fails and leaves the mapper as it was; the same call
  again misses again, flushes and calls the allocator again.
\<close>

theorem Map_repeat_after_failure_counterexample:
  "Map nomem_sys [] id 0 16 BufMapping_new [] =
     (0, BufMapping_new, [Ev_Alloc SLAB_SIZE False ''Slab'' (- 1)])
   \<and> Map nomem_sys [] id 0 16 BufMapping_new [Ev_Alloc SLAB_SIZE False ''Slab'' (- 1)] =
     (0, BufMapping_new,
      [Ev_Alloc SLAB_SIZE False ''Slab'' (- 1), Ev_Alloc SLAB_SIZE False ''Slab'' (- 1)])"
  by (simp add: Map_nomem_slab)


text \<open>
  Claim C5, amended. When a call of \<open>Map\<close> has succeeded (it returned an address other
  than 0), the same call again, with nothing in between, returns the same address and
  leaves the world as it is: no flush, no allocation, no copy. It makes no new generation
  and touches neither the extra entries nor their round-robin offset.
\<close>

theorem Map_repeat_hit:
  assumes "length (bm_slabs m) = SLAB_COUNT"
    and "length (bm_extra m) = EXTRA_COUNT"
    and "bm_lastSlab m < SLAB_COUNT"
    and "bm_extraOffset m < EXTRA_COUNT"
    and "Map S pushbuf flush bufpos sz m w = (a, m', w')"
    and "a \<noteq> 0"
  shows "\<exists>m''. Map S pushbuf flush2 bufpos sz m' w' = (a, m'', w')
            \<and> bm_slabGeneration m'' = bm_slabGeneration m'
            \<and> bm_extra m'' = bm_extra m' \<and> bm_extraOffset m'' = bm_extraOffset m'"
proof (cases "bufpos div SLAB_SIZE = (bufpos + sz - 1) div SLAB_SIZE")
  case True
  from Map_slab_repeat [OF assms(1) assms(3) True assms(5) assms(6)] show ?thesis .
next
  case False
  from Map_extra_repeat [OF assms(2) assms(4) False assms(5) assms(6)] show ?thesis .
qed

theorem Map_repeat_hit_witness:
  "\<exists>m''. Map demo_sys [] (\<lambda>w. w @ [Ev_Downcount 0]) 0x800000 16 demo_full []
             = (0x09000000, m'', [])
         \<and> bm_slabGeneration m'' = bm_slabGeneration demo_full
         \<and> bm_extra m'' = bm_extra demo_full
         \<and> bm_extraOffset m'' = bm_extraOffset demo_full"
proof -
  have nz: "(0x09000000 :: u32) \<noteq> 0" by simp
  show ?thesis
    by (rule Map_repeat_hit [OF demo_full_simps(1) demo_full_simps(3) demo_full_simps(2)
          demo_full_simps(4) demo_full_hit nz])
qed

subsection \<open>Facts about the executor\<close>

lemma demo_framebuf_fields:
  "read_u32 demo_framebuf 0 = 0x04000000"
  "read_u32 demo_framebuf 4 = 0x200"
  "read_u32 demo_framebuf 8 = 2"
  by (simp_all add: read_u32_def read_u8_def demo_framebuf_def)

lemma Vertices_ok:
  assumes "Map S pushbuf (SyncStall D) ptr sz (mapping D) w = (psp, m', w')" and "psp \<noteq> 0"
  shows "Vertices S pushbuf ptr sz D w =
           (D\<lparr>mapping := m',
              execListQueue := execListQueue D
                @ (if lastBase D \<noteq> psp AND 0xFF000000
                   then [push_bit 24 (GE_CMD_BASE S) OR (drop_bit 8 psp AND 0x00FF0000)] else [])
                @ [push_bit 24 (GE_CMD_VADDR S) OR (psp AND 0x00FFFFFF)],
              lastBase := psp AND 0xFF000000\<rparr>, w')"
  using assms by (simp add: Vertices_def Let_def)

lemma Indices_ok:
  assumes "Map S pushbuf (SyncStall D) ptr sz (mapping D) w = (psp, m', w')" and "psp \<noteq> 0"
  shows "Indices S pushbuf ptr sz D w =
           (D\<lparr>mapping := m',
              execListQueue := execListQueue D
                @ (if lastBase D \<noteq> psp AND 0xFF000000
                   then [push_bit 24 (GE_CMD_BASE S) OR (drop_bit 8 psp AND 0x00FF0000)] else [])
                @ [push_bit 24 (GE_CMD_IADDR S) OR (psp AND 0x00FFFFFF)],
              lastBase := psp AND 0xFF000000\<rparr>, w')"
  using assms by (simp add: Indices_def Let_def)

lemma TransferSrc_ok:
  assumes "Map S pushbuf (SyncStall D) ptr sz (mapping D) w = (psp, m', w')" and "psp \<noteq> 0"
  shows "TransferSrc S pushbuf ptr sz D w =
           (D\<lparr>mapping := m',
              execListQueue := execListQueue D
                @ [(gstate_transfersrcw S (SyncStall D w') AND 0xFF00FFFF)
                     OR (drop_bit 8 psp AND 0x00FF0000),
                   push_bit 24 (GE_CMD_TRANSFERSRC S) OR (psp AND 0x00FFFFFF)]\<rparr>,
            SyncStall D w')"
  using assms by (simp add: TransferSrc_def Let_def SyncStall_def)

lemma adds_refl [simp, intro!]: "adds P w w"
  by (simp add: adds_def)

lemma adds_trans: "adds P w w1 \<Longrightarrow> adds P w1 w2 \<Longrightarrow> adds P w w2"
  by (auto simp: adds_def)

lemma adds_app: "adds P w w1 \<Longrightarrow> list_all P es \<Longrightarrow> adds P w (w1 @ es)"
  by (auto simp: adds_def)

lemma handler_event_simps [simp]:
  "handler_event (Ev_Alloc a b c d)" "handler_event (Ev_Free p)"
  "handler_event (Ev_MemcpyPushbuf p n k)" "handler_event (Ev_MemcpyWords p ws)"
  "handler_event (Ev_Write_U32 v p)" "handler_event (Ev_NotifyMemInfo p k t)"
  "handler_event (Ev_Downcount p)" "handler_event (Ev_EnableInterrupts f)"
  "handler_event (Ev_gstate_Restore p)" "handler_event (Ev_PerformMemorySet p x k)"
  "handler_event (Ev_PerformWriteColorFromMemory p k)"
  "handler_event (Ev_DisplaySetFramebuf p q r t')" "handler_event (Ev_SetAddrTranslation p)"
  "handler_event (Ev_ERROR_LOG t)"
  "handler_event (Ev_OnMain opToExec) \<longleftrightarrow>
     op_type opToExec \<in> {OpType_UpdateStallAddr, OpType_EnqueueList, OpType_ReapplyGfxState}"
  by (simp_all add: handler_event_def)

lemma SyncStall_adds: "adds handler_event w (SyncStall D w)"
  by (auto simp: SyncStall_def mk_Operation_def intro!: adds_app)

lemma Slab_Setup_adds:
  "adds handler_event w (snd (snd (snd (Slab_Setup S pushbuf gen s pos w))))"
  by (auto simp: Slab_Setup_def Slab_Alloc_def Let_def split: prod.splits intro!: adds_app)

lemma Extra_Alloc_adds: "adds handler_event w (snd (snd (Extra_Alloc S e bufpos sz w)))"
  by (auto simp: Extra_Alloc_def Extra_Free_def Let_def split: prod.splits intro!: adds_app)

lemma Extra_FreeAll_adds: "adds handler_event w (snd (Extra_FreeAll is extra w))"
proof (induction "is" arbitrary: extra w)
  case Nil
  then show ?case by simp
next
  case (Cons i "is")
  have "adds handler_event w (snd (Extra_Free (extra ! i) w))"
    by (auto simp: Extra_Free_def intro!: adds_app)
  then show ?case
    using Cons.IH by (auto split: prod.splits intro: adds_trans)
qed

lemma Slab_FreeAll_adds: "adds handler_event w (snd (Slab_FreeAll is slabs w))"
proof (induction "is" arbitrary: slabs w)
  case Nil
  then show ?case by simp
next
  case (Cons i "is")
  have "adds handler_event w (snd (Slab_Free (slabs ! i) w))"
    by (auto simp: Slab_Free_def intro!: adds_app)
  then show ?case
    using Cons.IH by (auto split: prod.splits intro: adds_trans)
qed

lemma MapSlab_adds:
  assumes "\<And>w. adds handler_event w (flush w)"
  shows "adds handler_event w (snd (snd (MapSlab S pushbuf flush bufpos m w)))"
proof -
  have "adds handler_event w (snd (snd (snd (Slab_Setup S pushbuf gen s pos (flush w)))))" for gen s pos
    using assms Slab_Setup_adds by (blast intro: adds_trans)
  then show ?thesis
    by (auto simp: MapSlab_def Let_def case_prod_beta split: scan.splits)
qed

lemma MapExtra_adds:
  assumes "\<And>w. adds handler_event w (flush w)"
  shows "adds handler_event w (snd (snd (MapExtra S pushbuf flush bufpos sz m w)))"
proof (cases "MapExtra_scan (bm_extra m) bufpos sz [0..<EXTRA_COUNT]")
  case (Some i)
  then show ?thesis by (simp add: MapExtra_def)
next
  case None
  let ?m1 = "m\<lparr>bm_extraOffset := (bm_extraOffset m + 1) mod EXTRA_COUNT\<rparr>"
  obtain ok e1 w1 where a1: "Extra_Alloc S (bm_extra ?m1 ! bm_extraOffset m) bufpos sz (flush w) = (ok, e1, w1)"
    by (cases "Extra_Alloc S (bm_extra ?m1 ! bm_extraOffset m) bufpos sz (flush w)") auto
  have w1: "adds handler_event w w1"
    using assms [of w] Extra_Alloc_adds [of "flush w" S "bm_extra ?m1 ! bm_extraOffset m" bufpos sz] a1
    by (auto intro: adds_trans)
  obtain x2 w2 where fa: "Extra_FreeAll [0..<EXTRA_COUNT] ((bm_extra ?m1)[bm_extraOffset m := e1]) w1 = (x2, w2)"
    by (cases "Extra_FreeAll [0..<EXTRA_COUNT] ((bm_extra ?m1)[bm_extraOffset m := e1]) w1") auto
  have w2: "adds handler_event w w2"
    using w1 Extra_FreeAll_adds [of w1 "[0..<EXTRA_COUNT]" "(bm_extra ?m1)[bm_extraOffset m := e1]"] fa
    by (auto intro: adds_trans)
  have w3: "adds handler_event w (snd (snd (Extra_Alloc S (x2 ! bm_extraOffset m) bufpos sz w2)))"
    using w2 Extra_Alloc_adds [of w2 S "x2 ! bm_extraOffset m" bufpos sz]
    by (auto intro: adds_trans)
  show ?thesis
    using None a1 fa w1 w3
    by (auto simp: MapExtra_def Let_def case_prod_beta)
qed

lemma Map_adds:
  assumes "\<And>w. adds handler_event w (flush w)"
  shows "adds handler_event w (snd (snd (Map S pushbuf flush bufpos sz m w)))"
  using MapSlab_adds [OF assms] MapExtra_adds [OF assms]
  by (auto simp: Map_def Let_def case_prod_beta)

lemma Map_SyncStall_adds:
  "Map S pushbuf (SyncStall D) ptr sz m w = (psp, m', w') \<Longrightarrow> adds handler_event w w'"
  using Map_adds [of "SyncStall D" w S pushbuf ptr sz m] SyncStall_adds by simp

lemma ExecuteOnMain_snd: "snd (ExecuteOnMain S opToExec w) = w @ [Ev_OnMain opToExec]"
  by (simp add: ExecuteOnMain_def)

lemma Init_adds: "adds handler_event w (snd (Init S pushbuf ptr sz D w))"
  by (auto simp: Init_def ExecuteOnMain_def mk_Operation_def intro!: adds_app)

lemma Registers_ops_adds:
  "adds handler_event w (snd (Registers_ops S pushbuf ptr writePos lastTexHigh is D w))"
proof (induction "is" arbitrary: D w)
  case Nil
  then show ?case by simp
next
  case (Cons i "is")
  show ?case
    apply (simp only: Registers_ops.simps Let_def case_prod_beta)
    apply (rule adds_trans [OF _ Cons.IH])
    apply (auto intro!: adds_app)
    done
qed

lemma Registers_list_adds: "adds handler_event w (snd (snd (Registers_list S D w)))"
  by (auto simp: Registers_list_def Let_def ExecuteOnMain_def mk_Operation_def intro!: adds_app)

lemma Registers_adds: "adds handler_event w (snd (Registers S pushbuf ptr sz D w))"
proof -
  obtain ok D1 w1 where rl: "Registers_list S D w = (ok, D1, w1)"
    by (cases "Registers_list S D w") auto
  with Registers_list_adds [of w S D] have w1: "adds handler_event w w1" by simp
  show ?thesis
  proof (cases ok)
    case False
    with rl w1 show ?thesis by (simp add: Registers_def)
  next
    case True
    have step: "adds handler_event w
                  (snd (Registers_ops S pushbuf ptr wp lth js D3
                     (w2 @ [Ev_MemcpyWords a q] @ [Ev_MemcpyPushbuf b c d])))"
      if "adds handler_event w1 w2" for w2 wp lth js D3 a q b c d
    proof -
      have "adds handler_event w w2" using w1 that by (rule adds_trans)
      then have "adds handler_event w (w2 @ [Ev_MemcpyWords a q] @ [Ev_MemcpyPushbuf b c d])"
        by (rule adds_app) simp
      then show ?thesis using Registers_ops_adds by (rule adds_trans)
    qed
    have wrap: "adds handler_event w1 (SyncStall D2 (w1 @ [Ev_Write_U32 a b, Ev_Write_U32 c d]))" for D2 a b c d
    proof -
      have "adds handler_event w1 (w1 @ [Ev_Write_U32 a b, Ev_Write_U32 c d])"
        by (rule adds_app) simp_all
      then show ?thesis using SyncStall_adds by (rule adds_trans)
    qed
    show ?thesis
      using rl True step [OF wrap] step [OF adds_refl]
      by (simp add: Registers_def Let_def case_prod_beta)
  qed
qed

lemma Vertices_adds: "adds handler_event w (snd (Vertices S pushbuf ptr sz D w))"
  using Map_SyncStall_adds [of S pushbuf D ptr sz "mapping D" w]
  by (auto simp: Vertices_def Let_def split: prod.splits intro!: adds_app)

lemma Indices_adds: "adds handler_event w (snd (Indices S pushbuf ptr sz D w))"
  using Map_SyncStall_adds [of S pushbuf D ptr sz "mapping D" w]
  by (auto simp: Indices_def Let_def split: prod.splits intro!: adds_app)

lemma ClutAddr_adds: "adds handler_event w (snd (ClutAddr S pushbuf ptr sz D w))"
  by (simp add: ClutAddr_def)

lemma Clut_adds: "adds handler_event w (snd (Clut S pushbuf ptr sz D w))"
  using Map_SyncStall_adds [of S pushbuf D ptr sz "mapping D" w]
  by (auto simp: Clut_def Let_def split: prod.splits intro!: adds_app)

lemma TransferSrc_adds: "adds handler_event w (snd (TransferSrc S pushbuf ptr sz D w))"
proof -
  obtain psp m' w1 where mp: "Map S pushbuf (SyncStall D) ptr sz (mapping D) w = (psp, m', w1)"
    by (cases "Map S pushbuf (SyncStall D) ptr sz (mapping D) w") auto
  from Map_SyncStall_adds [OF mp] have w1: "adds handler_event w w1" .
  have "adds handler_event w (SyncStall D' w1)" for D'
    using w1 SyncStall_adds by (blast intro: adds_trans)
  with mp w1 show ?thesis
    by (auto simp: TransferSrc_def Let_def intro!: adds_app)
qed

lemma Memset_adds: "adds handler_event w (snd (Memset S pushbuf ptr sz D w))"
  by (auto simp: Memset_def Let_def intro!: adds_app SyncStall_adds)

lemma MemcpyDest_adds: "adds handler_event w (snd (MemcpyDest S pushbuf ptr sz D w))"
  by (simp add: MemcpyDest_def)

lemma Memcpy_adds: "adds handler_event w (snd (Memcpy S pushbuf ptr sz D w))"
  by (auto simp: Memcpy_def Let_def intro!: adds_app SyncStall_adds)

lemma Texture_adds: "adds handler_event w (snd (Texture S pushbuf level ptr sz D w))"
  using Map_SyncStall_adds [of S pushbuf D ptr sz "mapping D" w]
  by (auto simp: Texture_def Let_def split: prod.splits intro!: adds_app)

lemma Framebuf_adds: "adds handler_event w (snd (Framebuf S pushbuf level ptr sz D w))"
  by (auto simp: Framebuf_def Let_def intro!: adds_app)

lemma Display_adds: "adds handler_event w (snd (Display S pushbuf ptr sz allowFlip D w))"
  by (auto simp: Display_def Let_def intro!: adds_app SyncStall_adds)

lemma EdramTrans_adds: "adds handler_event w (snd (EdramTrans S pushbuf ptr sz D w))"
  by (auto simp: EdramTrans_def Let_def intro!: adds_app SyncStall_adds)

lemmas handler_adds =
  Init_adds Registers_adds Vertices_adds Indices_adds ClutAddr_adds Clut_adds TransferSrc_adds
  Memset_adds MemcpyDest_adds Memcpy_adds Texture_adds Framebuf_adds Display_adds EdramTrans_adds

lemma Run_switch_adds:
  "Run_switch S pushbuf cmd is_last D w = Some (D', w') \<Longrightarrow> adds handler_event w w'"
  unfolding Run_switch_def Let_def
  by (cases "cmd_type cmd") (use handler_adds in \<open>auto simp: prod_eq_iff\<close>)

lemma Run_switch_supported:
  "(\<forall>v. cmd_type cmd \<noteq> UNKNOWN v) \<Longrightarrow> \<exists>D' w'. Run_switch S pushbuf cmd is_last D w = Some (D', w')"
  unfolding Run_switch_def Let_def
  by (cases "cmd_type cmd") auto

lemma Run_switch_UNKNOWN:
  "cmd_type cmd = UNKNOWN v \<Longrightarrow> Run_switch S pushbuf cmd is_last D w = None"
  by (simp add: Run_switch_def)

lemma Run_handlers_supported:
  "\<forall>c\<in>set pre. \<forall>v. cmd_type c \<noteq> UNKNOWN v \<Longrightarrow>
     \<exists>D' w'. Run_handlers S pushbuf pre D w = Some (D', w') \<and> adds handler_event w w'"
proof (induction pre arbitrary: D w)
  case Nil
  then show ?case by simp
next
  case (Cons c pre)
  from Cons.prems have "\<forall>v. cmd_type c \<noteq> UNKNOWN v" by simp
  from Run_switch_supported [OF this] obtain D1 w1 where
    sw: "Run_switch S pushbuf c False D w = Some (D1, w1)" by blast
  from Run_switch_adds [OF sw] have a1: "adds handler_event w w1" .
  from Cons.prems have "\<forall>c\<in>set pre. \<forall>v. cmd_type c \<noteq> UNKNOWN v" by simp
  from Cons.IH [OF this] obtain D' w' where
    "Run_handlers S pushbuf pre D1 w1 = Some (D', w')" "adds handler_event w1 w'" by blast
  with sw a1 show ?case by (auto intro: adds_trans)
qed

lemma Run_loop_unsupported:
  "Run_handlers S pushbuf pre D w = Some (D', w') \<Longrightarrow> cmd_type bad = UNKNOWN v \<Longrightarrow>
     Run_loop S False pushbuf (pre @ bad # post) D w =
       (ReplayResult_Error, D', w' @ [Ev_ERROR_LOG ''Unsupported GE dump command''])"
proof (induction pre arbitrary: D w)
  case Nil
  then show ?case by (simp add: Run_switch_UNKNOWN)
next
  case (Cons c pre)
  then show ?case by (auto split: option.splits)
qed

lemma Registers_ops_list_fields:
  "execListPos (fst (Registers_ops S pushbuf ptr writePos lastTexHigh is D w)) = execListPos D
   \<and> execListBuf (fst (Registers_ops S pushbuf ptr writePos lastTexHigh is D w)) = execListBuf D
   \<and> execListID (fst (Registers_ops S pushbuf ptr writePos lastTexHigh is D w)) = execListID D"
proof (induction "is" arbitrary: D w)
  case Nil
  then show ?case by simp
next
  case (Cons i "is")
  show ?case
    apply (simp only: Registers_ops.simps Let_def case_prod_beta)
    apply (simp only: Cons.IH)
    apply simp
    done
qed

lemma Registers_list_demo:
  "Registers_list demo_sys (DumpExecute_new v) [] =
     (True,
      (DumpExecute_new v)\<lparr>execListBuf := 0x08800000, execListPos := 0x08800004, execListID := 1\<rparr>,
      [Ev_Alloc LIST_BUF_SIZE True ''List buf'' 0x08800000,
       Ev_Write_U32 0 0x08800000,
       Ev_EnableInterrupts False,
       Ev_OnMain (mk_Operation OpType_EnqueueList 0x08800000 0x08800004),
       Ev_EnableInterrupts True])"
  by (simp add: Registers_list_def Let_def demo_sys_def DumpExecute_new_def ExecuteOnMain_def
        mk_Operation_def)

lemma overrun_fields:
  "execListBuf (fst overrun_run) = 0x08800000"
  "execListPos (fst overrun_run) = 0x08840000"
  "execListID (fst overrun_run) = 1"
  unfolding overrun_run_def Registers_def Registers_list_demo
  by (simp_all add: Let_def case_prod_beta Registers_ops_list_fields LIST_BUF_SIZE_def
        DumpExecute_new_def SyncStall_def)

text \<open>
  The guard of \<open>Registers\<close> does keep the headroom for a command whose pending words and
  payload, with the eight bytes of the pair, are shorter than the list buffer.
\<close>

lemma headroom_step:
  fixes buf pos p sz :: u32
  assumes "unat buf \<le> unat pos" "unat pos + 8 \<le> unat buf + 262144"
    "unat buf + 524288 < 2 ^ 32" "unat p + unat sz + 8 < 262144"
  shows "unat buf \<le> unat ((if pos + (p + sz + 8) \<ge> buf + 262144 then buf else pos) + p + sz)
       \<and> unat ((if pos + (p + sz + 8) \<ge> buf + 262144 then buf else pos) + p + sz) + 8
             \<le> unat buf + 262144"
proof -
  have a: "unat (p + sz + 8) = unat p + unat sz + 8"
    using assms(4) by (simp add: unat_word_ariths)
  have b: "unat (buf + 262144) = unat buf + 262144"
    using assms(3) by (simp add: unat_word_ariths)
  have c: "unat (pos + (p + sz + 8)) = unat pos + (unat p + unat sz + 8)"
    using assms a by (simp add: unat_word_ariths)
  have d: "unat (pos + p + sz) = unat pos + unat p + unat sz"
    using assms by (simp add: unat_word_ariths)
  have e: "unat (buf + p + sz) = unat buf + unat p + unat sz"
    using assms by (simp add: unat_word_ariths)
  show ?thesis
    using assms a b c d e by (auto simp: word_le_nat_alt)
qed

lemma Registers_list_headroom:
  assumes "execListBuf D \<noteq> 0 \<Longrightarrow> list_headroom D"
    and "\<And>w. userMemory_Alloc S w LIST_BUF_SIZE True \<noteq> - 1 \<Longrightarrow>
              unat (userMemory_Alloc S w LIST_BUF_SIZE True) + 2 * unat LIST_BUF_SIZE < 2 ^ 32"
    and "Registers_list S D w = (ok, D1, w1)"
  shows "execListQueue D1 = execListQueue D
       \<and> (if ok then execListBuf D1 \<noteq> 0 \<and> list_headroom D1 else execListBuf D1 = 0)"
proof (cases "execListBuf D = 0")
  case False
  with assms show ?thesis by (auto simp: Registers_list_def)
next
  case True
  let ?r = "userMemory_Alloc S w LIST_BUF_SIZE True"
  show ?thesis
  proof (cases "?r = - 1 \<or> ?r = 0")
    case True
    with \<open>execListBuf D = 0\<close> assms(3) show ?thesis
      by (auto simp: Registers_list_def Let_def)
  next
    case ok: False
    then have nw: "unat ?r + 2 * unat LIST_BUF_SIZE < 2 ^ 32" using assms(2) by simp
    then have "unat (?r + 4) = unat ?r + 4"
      by (simp add: unat_word_ariths LIST_BUF_SIZE_def)
    with nw ok True assms(3) show ?thesis
      by (auto simp: Registers_list_def Let_def case_prod_beta list_headroom_def LIST_BUF_SIZE_def)
  qed
qed

lemma Registers_keeps_headroom:
  assumes inv: "execListBuf D \<noteq> 0 \<Longrightarrow> list_headroom D"
    and alloc: "\<And>w. userMemory_Alloc S w LIST_BUF_SIZE True \<noteq> - 1 \<Longrightarrow>
              unat (userMemory_Alloc S w LIST_BUF_SIZE True) + 2 * unat LIST_BUF_SIZE < 2 ^ 32"
    and small: "4 * length (execListQueue D) + unat sz + 8 < unat LIST_BUF_SIZE"
  shows "execListBuf (fst (Registers S pushbuf ptr sz D w)) \<noteq> 0 \<longrightarrow>
           list_headroom (fst (Registers S pushbuf ptr sz D w))"
proof -
  obtain ok D1 w1 where rl: "Registers_list S D w = (ok, D1, w1)"
    by (cases "Registers_list S D w") auto
  note h = Registers_list_headroom [OF inv alloc rl]
  show ?thesis
  proof (cases ok)
    case False
    with h rl show ?thesis by (simp add: Registers_def)
  next
    case True
    with h have q: "execListQueue D1 = execListQueue D" and hr: "list_headroom D1" by simp_all
    define p :: u32 where "p = word_of_nat (length (execListQueue D1)) * 4"
    have up: "unat p = 4 * length (execListQueue D)"
      using small unfolding p_def q
      by (simp add: unat_word_ariths unat_of_nat LIST_BUF_SIZE_def)
    have s: "unat p + unat sz + 8 < 262144"
      using small up by (simp add: LIST_BUF_SIZE_def)
    from hr have a: "unat (execListBuf D1) \<le> unat (execListPos D1)"
      and b: "unat (execListPos D1) + 8 \<le> unat (execListBuf D1) + 262144"
      and c: "unat (execListBuf D1) + 524288 < 2 ^ 32"
      by (simp_all add: list_headroom_def LIST_BUF_SIZE_def)
    note st = headroom_step [OF a b c s]
    have "list_headroom (fst (Registers S pushbuf ptr sz D w))"
      using st c rl True
      unfolding Registers_def p_def
      by (simp add: Let_def case_prod_beta Registers_ops_list_fields list_headroom_def
            LIST_BUF_SIZE_def split: if_splits)
    then show ?thesis by simp
  qed
qed

lemma Map_demo_slab:
  assumes "flush [] = []"
  shows "Map demo_sys (replicate 16 0) flush 0 16 BufMapping_new [] =
     (0x08800000,
      BufMapping_new\<lparr>bm_slabGeneration := 1,
        bm_slabs := (bm_slabs BufMapping_new)
           [0 := \<lparr>slab_psp_pointer = 0x08800000, slab_buf_pointer = 0, slab_last_used = 1\<rparr>],
        bm_lastSlab := 0\<rparr>,
      [Ev_Alloc SLAB_SIZE False ''Slab'' 0x08800000, Ev_MemcpyPushbuf 0x08800000 0 16])"
proof -
  have scan: "MapSlab_scan 0 (bm_slabs BufMapping_new) 0 0 [0..<SLAB_COUNT] = Miss 0"
    by (rule MapSlab_scan_unallocated) (simp_all add: SLAB_COUNT_def)
  have z: "0 < SLAB_COUNT" by (simp add: SLAB_COUNT_def)
  show ?thesis
    using z assms
    by (simp add: Map_def MapSlab_def Let_def scan Slab_Matches_def Slab_Setup_def Slab_Alloc_def
          Slab_Ptr_def demo_sys_def SLAB_SIZE_def)
qed

lemma Run_demo_unsupported:
  "Run demo_sys False [0, 0, 0, 0]
     [\<lparr>cmd_type = REGISTERS, cmd_ptr = 0, cmd_sz = 4\<rparr>,
      \<lparr>cmd_type = UNKNOWN 99, cmd_ptr = 0, cmd_sz = 0\<rparr>]
     (DumpExecute_new 6) []
   = (ReplayResult_Error,
      (DumpExecute_new 6)\<lparr>execListBuf := 0x08800000, execListPos := 0x08800008, execListID := 1\<rparr>,
      [Ev_SetAddrTranslation 0x400,
       Ev_Alloc LIST_BUF_SIZE True ''List buf'' 0x08800000,
       Ev_Write_U32 0 0x08800000,
       Ev_EnableInterrupts False,
       Ev_OnMain (mk_Operation OpType_EnqueueList 0x08800000 0x08800004),
       Ev_EnableInterrupts True,
       Ev_MemcpyWords 0x08800004 [],
       Ev_MemcpyPushbuf 0x08800004 0 4,
       Ev_ERROR_LOG ''Unsupported GE dump command''])"
proof -
  have rl: "Registers_list demo_sys (DumpExecute_new 6) [Ev_SetAddrTranslation 0x400] =
     (True,
      (DumpExecute_new 6)\<lparr>execListBuf := 0x08800000, execListPos := 0x08800004, execListID := 1\<rparr>,
      [Ev_SetAddrTranslation 0x400,
       Ev_Alloc LIST_BUF_SIZE True ''List buf'' 0x08800000,
       Ev_Write_U32 0 0x08800000,
       Ev_EnableInterrupts False,
       Ev_OnMain (mk_Operation OpType_EnqueueList 0x08800000 0x08800004),
       Ev_EnableInterrupts True])"
    by (simp add: Registers_list_def Let_def demo_sys_def DumpExecute_new_def ExecuteOnMain_def
        mk_Operation_def)
  have rd: "read_u32 [0, 0, 0, 0] 0 = 0"
    by (simp add: read_u32_def read_u8_def)
  have idx: "[0..<unat ((4 :: u32) div 4)] = [0]"
    by simp
  have reg: "Registers demo_sys [0, 0, 0, 0] 0 4 (DumpExecute_new 6) [Ev_SetAddrTranslation 0x400] =
     ((DumpExecute_new 6)\<lparr>execListBuf := 0x08800000, execListPos := 0x08800008, execListID := 1\<rparr>,
      [Ev_SetAddrTranslation 0x400,
       Ev_Alloc LIST_BUF_SIZE True ''List buf'' 0x08800000,
       Ev_Write_U32 0 0x08800000,
       Ev_EnableInterrupts False,
       Ev_OnMain (mk_Operation OpType_EnqueueList 0x08800000 0x08800004),
       Ev_EnableInterrupts True,
       Ev_MemcpyWords 0x08800004 [],
       Ev_MemcpyPushbuf 0x08800004 0 4])"
    unfolding Registers_def rl
    by (simp add: Let_def idx rd LIST_BUF_SIZE_def DumpExecute_new_def demo_sys_def)
  have g: "gpu_present demo_sys" by (simp add: demo_sys_def)
  have r: "resumeIndex (DumpExecute_new 6) = - 1" by (simp add: DumpExecute_new_def)
  show ?thesis
    by (simp add: Run_def Let_def Run_switch_def reg g r)
qed

subsection \<open>Framebuffer records\<close>

text \<open>
  Claim C2. \<open>Framebuf\<close> under format version 6 or later with bit 1 of the record's flags
  set adds nothing to the world: no pixel data is copied. Under a version below 6 that
  bit plays no part: the pixel data is copied, and the write notified, exactly when the
  destination range is valid and the record is not a render target or software rendering
  is off.
\<close>

theorem Framebuf_unchanged_flag:
  "(version D \<ge> 6 \<and> read_u32 pushbuf (unat ptr + 8) AND 2 \<noteq> 0 \<longrightarrow>
      snd (Framebuf S pushbuf level ptr sz D w) = w)
   \<and> (version D < 6 \<longrightarrow>
      snd (Framebuf S pushbuf level ptr sz D w) =
        (if Memory_IsValidRange S (read_u32 pushbuf (unat ptr)) (sz - 16)
            \<and> (read_u32 pushbuf (unat ptr + 8) AND 1 = 0 \<or> \<not> bSoftwareRendering S)
         then w @ [Ev_MemcpyPushbuf (read_u32 pushbuf (unat ptr)) (unat ptr + 16) (sz - 16),
                   Ev_NotifyMemInfo (read_u32 pushbuf (unat ptr)) (sz - 16) ''ReplayTex'']
         else w))"
  by (auto simp: Framebuf_def Let_def)

theorem Framebuf_unchanged_flag_witness:
  "snd (Framebuf demo_sys demo_framebuf 0 0 32 (DumpExecute_new 6) []) = []
   \<and> snd (Framebuf demo_sys demo_framebuf 0 0 32 (DumpExecute_new 5) []) =
       [Ev_MemcpyPushbuf 0x04000000 16 16, Ev_NotifyMemInfo 0x04000000 16 ''ReplayTex'']"
  using Framebuf_unchanged_flag [of "DumpExecute_new 6" demo_framebuf 0 demo_sys 0 32 "[]"]
        Framebuf_unchanged_flag [of "DumpExecute_new 5" demo_framebuf 0 demo_sys 0 32 "[]"]
  by (simp add: demo_framebuf_fields DumpExecute_new_def demo_sys_def)

subsection \<open>Base-address words\<close>

text \<open>
  \<open>TransferSrc\<close> on a fresh executor: the mapped window is \<open>0x08800000\<close>, whose high byte
  differs from the tracked base 0, and yet no base-address word (command \<open>0x10\<close>) is
  queued and the tracked base stays 0.
\<close>

theorem TransferSrc_no_base_word_counterexample:
  "fst (Map demo_sys (replicate 16 0) (SyncStall (DumpExecute_new 6)) 0 16
          (mapping (DumpExecute_new 6)) []) = 0x08800000
   \<and> lastBase (DumpExecute_new 6) \<noteq> 0x08800000 AND 0xFF000000
   \<and> execListQueue (fst (TransferSrc demo_sys (replicate 16 0) 0 16 (DumpExecute_new 6) []))
       = [0xB3080200, 0xB2800000]
   \<and> lastBase (fst (TransferSrc demo_sys (replicate 16 0) 0 16 (DumpExecute_new 6) [])) = 0"
proof -
  have f: "SyncStall (DumpExecute_new 6) [] = []"
    by (simp add: SyncStall_def DumpExecute_new_def)
  have m: "mapping (DumpExecute_new 6) = BufMapping_new"
    by (simp add: DumpExecute_new_def)
  note mp = Map_demo_slab [of "SyncStall (DumpExecute_new 6)", OF f]
  have nz: "(0x08800000 :: u32) \<noteq> 0" by simp
  show ?thesis
    unfolding TransferSrc_ok [OF mp [folded m] nz] m mp
    by (simp add: DumpExecute_new_def demo_sys_def)
qed

text \<open>
  Claim C8, amended. After a successful \<open>Map\<close>, \<open>Vertices\<close> and \<open>Indices\<close> queue a
  base-address word exactly when the high address byte of the window differs from the
  tracked last base, which they then set to it, and after it the \<open>VADDR\<close> or \<open>IADDR\<close>
  word. \<open>TransferSrc\<close> neither reads nor writes the tracked base and queues no base
  word: it stalls, then queues the transfer source width word of the engine state with
  the window's high address byte in bits 16 to 23, and the \<open>TRANSFERSRC\<close> address word.
\<close>

theorem Vertices_Indices_base_word:
  assumes "Map S pushbuf (SyncStall D) ptr sz (mapping D) w = (psp, m', w')"
    and "psp \<noteq> 0"
  shows "Vertices S pushbuf ptr sz D w =
           (D\<lparr>mapping := m',
              execListQueue := execListQueue D
                @ (if lastBase D \<noteq> psp AND 0xFF000000
                   then [push_bit 24 (GE_CMD_BASE S) OR (drop_bit 8 psp AND 0x00FF0000)] else [])
                @ [push_bit 24 (GE_CMD_VADDR S) OR (psp AND 0x00FFFFFF)],
              lastBase := psp AND 0xFF000000\<rparr>, w')
       \<and> Indices S pushbuf ptr sz D w =
           (D\<lparr>mapping := m',
              execListQueue := execListQueue D
                @ (if lastBase D \<noteq> psp AND 0xFF000000
                   then [push_bit 24 (GE_CMD_BASE S) OR (drop_bit 8 psp AND 0x00FF0000)] else [])
                @ [push_bit 24 (GE_CMD_IADDR S) OR (psp AND 0x00FFFFFF)],
              lastBase := psp AND 0xFF000000\<rparr>, w')
       \<and> TransferSrc S pushbuf ptr sz D w =
           (D\<lparr>mapping := m',
              execListQueue := execListQueue D
                @ [(gstate_transfersrcw S (SyncStall D w') AND 0xFF00FFFF)
                     OR (drop_bit 8 psp AND 0x00FF0000),
                   push_bit 24 (GE_CMD_TRANSFERSRC S) OR (psp AND 0x00FFFFFF)]\<rparr>,
            SyncStall D w')"
  using Vertices_ok [OF assms] Indices_ok [OF assms] TransferSrc_ok [OF assms] by simp

theorem Vertices_Indices_base_word_witness:
  "execListQueue (fst (Vertices demo_sys (replicate 16 0) 0 16 (DumpExecute_new 6) []))
     = [0x10080000, 0x01800000]
   \<and> lastBase (fst (Vertices demo_sys (replicate 16 0) 0 16 (DumpExecute_new 6) [])) = 0x08000000
   \<and> execListQueue (fst (Indices demo_sys (replicate 16 0) 0 16 (DumpExecute_new 6) []))
     = [0x10080000, 0x02800000]"
proof -
  have f: "SyncStall (DumpExecute_new 6) [] = []"
    by (simp add: SyncStall_def DumpExecute_new_def)
  have m: "mapping (DumpExecute_new 6) = BufMapping_new"
    by (simp add: DumpExecute_new_def)
  note mp = Map_demo_slab [of "SyncStall (DumpExecute_new 6)", OF f]
  have nz: "(0x08800000 :: u32) \<noteq> 0" by simp
  show ?thesis
    using Vertices_Indices_base_word [OF mp [folded m] nz]
    by (simp add: DumpExecute_new_def demo_sys_def)
qed

subsection \<open>The list buffer\<close>

text \<open>
  Claim C7, at an input where the code breaks it. A first \<open>Registers\<close> command with a
  payload of 262144 bytes: the list buffer is allocated at \<open>0x08800000\<close>, the guard wraps
  the write position to the start of the buffer, and the payload then fills the buffer
  to its very end, with no room left. \<open>SubmitListEnd\<close> writes the finish and end words at
  \<open>0x08840000\<close> and \<open>0x08840004\<close>, past the 256 KB of the buffer.
\<close>

theorem Registers_overruns_list_buffer:
  "execListBuf (fst overrun_run) = 0x08800000
   \<and> execListPos (fst overrun_run) = execListBuf (fst overrun_run) + LIST_BUF_SIZE
   \<and> (\<exists>rest. snd (SubmitListEnd demo_sys False (fst overrun_run) (snd overrun_run)) =
          snd overrun_run
            @ [Ev_Write_U32 0x0F000000 0x08840000, Ev_Write_U32 0x0C000000 0x08840004] @ rest)"
  by (simp add: overrun_fields LIST_BUF_SIZE_def SubmitListEnd_def Let_def SyncStall_def
        ExecuteOnMain_def demo_sys_def)

subsection \<open>Unsupported commands\<close>

text \<open>
  A \<open>Registers\<close> command followed by a command of unknown type: \<open>Run\<close> returns \<open>Error\<close>,
  and the list begun by \<open>Registers\<close> is left as it is. The world holds no finish or end
  word, no stall and no \<open>ListSync\<close>.
\<close>

theorem Run_unsupported_not_finalized_counterexample:
  "Run demo_sys False [0, 0, 0, 0]
     [\<lparr>cmd_type = REGISTERS, cmd_ptr = 0, cmd_sz = 4\<rparr>,
      \<lparr>cmd_type = UNKNOWN 99, cmd_ptr = 0, cmd_sz = 0\<rparr>]
     (DumpExecute_new 6) []
   = (ReplayResult_Error,
      (DumpExecute_new 6)\<lparr>execListBuf := 0x08800000, execListPos := 0x08800008, execListID := 1\<rparr>,
      [Ev_SetAddrTranslation 0x400,
       Ev_Alloc LIST_BUF_SIZE True ''List buf'' 0x08800000,
       Ev_Write_U32 0 0x08800000,
       Ev_EnableInterrupts False,
       Ev_OnMain (mk_Operation OpType_EnqueueList 0x08800000 0x08800004),
       Ev_EnableInterrupts True,
       Ev_MemcpyWords 0x08800004 [],
       Ev_MemcpyPushbuf 0x08800004 0 4,
       Ev_ERROR_LOG ''Unsupported GE dump command''])"
  by (rule Run_demo_unsupported)

text \<open>
  Claim C1, amended. When the commands before the first command of unsupported type are
  all supported and the run is not cancelled, \<open>Run\<close> stops at that command and returns
  \<open>Error\<close>; the commands after it play no part. State and world are those the handlers
  of the preceding commands left, plus the logged error: \<open>SubmitListEnd\<close> is not run, so
  no finish or end word is appended and nothing but stall updates, the enqueueing of the
  list and state re-application is handed to the main context (no \<open>ListSync\<close>).
\<close>

theorem Run_unsupported_command:
  assumes "\<forall>c\<in>set pre. \<forall>v. cmd_type c \<noteq> UNKNOWN v"
    and "resumeIndex D < 0"
  shows "\<exists>D' w'.
           Run S False pushbuf (pre @ \<lparr>cmd_type = UNKNOWN v, cmd_ptr = p, cmd_sz = n\<rparr> # post) D w
             = (ReplayResult_Error, D', w' @ [Ev_ERROR_LOG ''Unsupported GE dump command''])
         \<and> Run_handlers S pushbuf pre D
              (if gpu_present S then w @ [Ev_SetAddrTranslation 0x400] else w) = Some (D', w')
         \<and> adds handler_event w w'"
proof -
  let ?w0 = "if gpu_present S then w @ [Ev_SetAddrTranslation 0x400] else w"
  have w0: "adds handler_event w ?w0" by (auto intro!: adds_app)
  from Run_handlers_supported [OF assms(1)] obtain D' w' where
    h: "Run_handlers S pushbuf pre D ?w0 = Some (D', w')" and a: "adds handler_event ?w0 w'"
    by blast
  have "Run_loop S False pushbuf (pre @ \<lparr>cmd_type = UNKNOWN v, cmd_ptr = p, cmd_sz = n\<rparr> # post) D ?w0
          = (ReplayResult_Error, D', w' @ [Ev_ERROR_LOG ''Unsupported GE dump command''])"
    by (rule Run_loop_unsupported [OF h]) simp
  then have "Run S False pushbuf (pre @ \<lparr>cmd_type = UNKNOWN v, cmd_ptr = p, cmd_sz = n\<rparr> # post) D w
          = (ReplayResult_Error, D', w' @ [Ev_ERROR_LOG ''Unsupported GE dump command''])"
    using assms(2) by (simp add: Run_def Let_def)
  with h adds_trans [OF w0 a] show ?thesis by blast
qed

theorem Run_unsupported_command_witness:
  "\<exists>D' w'.
     Run demo_sys False [0, 0, 0, 0]
       ([\<lparr>cmd_type = REGISTERS, cmd_ptr = 0, cmd_sz = 4\<rparr>]
          @ \<lparr>cmd_type = UNKNOWN 99, cmd_ptr = 0, cmd_sz = 0\<rparr>
          # [\<lparr>cmd_type = DISPLAY, cmd_ptr = 0, cmd_sz = 4\<rparr>])
       (DumpExecute_new 6) []
       = (ReplayResult_Error, D', w' @ [Ev_ERROR_LOG ''Unsupported GE dump command''])
     \<and> Run_handlers demo_sys [0, 0, 0, 0] [\<lparr>cmd_type = REGISTERS, cmd_ptr = 0, cmd_sz = 4\<rparr>]
           (DumpExecute_new 6)
           (if gpu_present demo_sys then [] @ [Ev_SetAddrTranslation 0x400] else [])
         = Some (D', w')
     \<and> adds handler_event [] w'"
proof -
  have s: "\<forall>c\<in>set [\<lparr>cmd_type = REGISTERS, cmd_ptr = 0, cmd_sz = 4\<rparr>]. \<forall>v. cmd_type c \<noteq> UNKNOWN v"
    by simp
  have r: "resumeIndex (DumpExecute_new 6) < 0"
    by (simp add: DumpExecute_new_def)
  show ?thesis
    by (rule Run_unsupported_command [OF s r])
qed

subsection \<open>Facts about the mailbox and the loader\<close>

lemma opFinishWait_wait_cancelled:
  "g_cancelled G \<Longrightarrow> opFinishWait_wait G acts = Some G"
  by (cases acts) simp_all

lemma opFinishWait_wait_cancel:
  "\<exists>G'. opFinishWait_wait G (pre @ Replay_Unload_cancel # post) = Some G'"
proof (induction pre arbitrary: G)
  case Nil
  have "g_cancelled (Replay_Unload_cancel G)" by (simp add: Replay_Unload_cancel_def)
  then show ?case by (simp add: opFinishWait_wait_cancelled)
next
  case (Cons a pre)
  then show ?case by simp
qed

lemma read_u8_take_drop:
  "k < n \<Longrightarrow> read_u8 (take n (drop p bytes)) k = read_u8 bytes (p + k)"
  by (auto simp: read_u8_def)

lemma read_u32_take_drop: "read_u32 (take 4 (drop p bytes)) 0 = read_u32 bytes p"
  by (simp add: read_u32_def read_u8_take_drop)

lemma ReadCompressed_block:
  assumes "stream_block bytes p = Some (c, p')"
  shows "ReadCompressed F \<lparr>file_bytes = bytes, file_pos = p\<rparr> dest declared ver =
           (\<not> reported_mismatch F ver c declared,
            write_dest (written_bytes F ver c declared) dest,
            \<lparr>file_bytes = bytes, file_pos = p'\<rparr>)"
proof -
  from assms have a: "p + 4 \<le> length bytes"
    and b: "p + 4 + unat (read_u32 bytes p) \<le> length bytes"
    and c: "c = take (unat (read_u32 bytes p)) (drop (p + 4) bytes)"
    and p': "p' = p + 4 + unat (read_u32 bytes p)"
    by (auto simp: stream_block_def Let_def split: if_splits)
  have r1: "ReadFile \<lparr>file_bytes = bytes, file_pos = p\<rparr> 4 =
              (take 4 (drop p bytes), \<lparr>file_bytes = bytes, file_pos = p + 4\<rparr>)"
    using a by (simp add: ReadFile_def Let_def)
  have r2: "ReadFile \<lparr>file_bytes = bytes, file_pos = p + 4\<rparr> (unat (read_u32 bytes p)) =
              (c, \<lparr>file_bytes = bytes, file_pos = p'\<rparr>)"
    using b by (simp add: ReadFile_def Let_def c p')
  have lc: "length c = unat (read_u32 bytes p)" using b c by simp
  have l4: "min (length bytes - p) 4 = 4" using a by simp
  show ?thesis
    unfolding ReadCompressed_def r1
    by (auto simp: l4 read_u32_take_drop r2 lc Let_def case_prod_beta reported_mismatch_def
          decompressed_length_def written_bytes_def split: option.splits)
qed

lemma ReadFile_full:
  "p + n \<le> length bytes \<Longrightarrow>
     ReadFile \<lparr>file_bytes = bytes, file_pos = p\<rparr> n =
       (take n (drop p bytes), \<lparr>file_bytes = bytes, file_pos = p + n\<rparr>)"
  by (simp add: ReadFile_def Let_def)

lemma stream_block_bounds:
  "stream_block bytes p = Some (c, p') \<Longrightarrow> p + 4 \<le> length bytes"
  by (auto simp: stream_block_def split: if_splits)

lemma LoadReplay_thread [simp]:
  "replayThread (snd (LoadReplay F filename G)) = replayThread G"
  by (simp add: LoadReplay_def Let_def case_prod_beta)

lemma LoadReplay_header_bad:
  assumes "header_magic F (take (sizeof_Header F) (file_contents F filename)) \<noteq> HEADER_MAGIC F
         \<or> header_version F (take (sizeof_Header F) (file_contents F filename)) > VERSION F
         \<or> header_version F (take (sizeof_Header F) (file_contents F filename)) < MIN_VERSION F"
  shows "LoadReplay F filename G = (0, G\<lparr>g_cancelled := False\<rparr>)"
  using assms by (simp add: LoadReplay_def ReadFile_def Let_def)

lemma LoadReplay_first_stream:
  assumes bytes: "file_contents F filename = bytes"
    and hb: "take (sizeof_Header F) bytes = hb"
    and ver: "header_version F hb = ver"
    and start: "(if ver \<le> 3 then 12 else length hb) = start"
    and d1: "sizeof_Command F * unat (read_u32 bytes start) = d1"
    and d2: "unat (read_u32 bytes (start + 4)) = d2"
    and good: "header_magic F hb = HEADER_MAGIC F" "\<not> ver > VERSION F" "\<not> ver < MIN_VERSION F"
    and s1: "stream_block bytes (start + 8) = Some (c1, p1)"
    and dest1: "write_dest (written_bytes F ver c1 d1)
                  (resize d1 (encode_commands F (lastExecCommands G))) = dest1"
  shows "LoadReplay F filename G =
     (if reported_mismatch F ver c1 d1
      then (0, G\<lparr>g_cancelled := False, lastExecCommands := decode_commands F dest1,
                 lastExecPushbuf := resize d2 (lastExecPushbuf G)\<rparr>)
      else
        (case ReadCompressed F \<lparr>file_bytes = bytes, file_pos = p1\<rparr>
                (resize d2 (lastExecPushbuf G)) d2 ver of
           (ok2, dest2, fp5) \<Rightarrow>
             if ok2 then (ver, G\<lparr>g_cancelled := False, lastExecCommands := decode_commands F dest1,
                                lastExecPushbuf := dest2, lastExecFilename := filename,
                                lastExecVersion := ver\<rparr>)
             else (0, G\<lparr>g_cancelled := False, lastExecCommands := decode_commands F dest1,
                        lastExecPushbuf := dest2\<rparr>)))"
proof -
  have hdr: "ReadFile \<lparr>file_bytes = file_contents F filename, file_pos = 0\<rparr> (sizeof_Header F)
               = (hb, \<lparr>file_bytes = bytes, file_pos = length hb\<rparr>)"
    unfolding hb [symmetric] bytes by (simp add: ReadFile_def Let_def)
  have fp1: "(if ver \<le> 3
              then \<lparr>file_bytes = bytes, file_pos = length hb\<rparr>\<lparr>file_pos := 12\<rparr>
              else \<lparr>file_bytes = bytes, file_pos = length hb\<rparr>)
             = \<lparr>file_bytes = bytes, file_pos = start\<rparr>"
    unfolding start [symmetric] by simp
  from stream_block_bounds [OF s1] have len: "start + 12 \<le> length bytes" by simp
  have r1: "ReadFile \<lparr>file_bytes = bytes, file_pos = start\<rparr> 4 =
              (take 4 (drop start bytes), \<lparr>file_bytes = bytes, file_pos = start + 4\<rparr>)"
    by (rule ReadFile_full) (use len in simp)
  have r2: "ReadFile \<lparr>file_bytes = bytes, file_pos = start + 4\<rparr> 4 =
              (take 4 (drop (start + 4) bytes), \<lparr>file_bytes = bytes, file_pos = start + 8\<rparr>)"
    using ReadFile_full [of "start + 4" 4 bytes] len by simp
  have e1: "sizeof_Command F * unat (read_u32 (take 4 (drop start bytes)) 0) = d1"
    unfolding d1 [symmetric] by (simp only: read_u32_take_drop)
  have e2: "unat (read_u32 (take 4 (drop (start + 4) bytes)) 0) = d2"
    unfolding d2 [symmetric] by (simp only: read_u32_take_drop)
  note rc1 = ReadCompressed_block [OF s1, of F _ d1 ver]
  have "LoadReplay F filename G =
      (case ReadCompressed F \<lparr>file_bytes = bytes, file_pos = start + 8\<rparr>
              (resize d1 (encode_commands F (lastExecCommands (G\<lparr>g_cancelled := False\<rparr>)))) d1 ver of
         (ok1, dest1, fp4) \<Rightarrow>
           (case (if ok1 then ReadCompressed F fp4
                        (resize d2 (lastExecPushbuf (G\<lparr>g_cancelled := False\<rparr>))) d2 ver
                  else (True, resize d2 (lastExecPushbuf (G\<lparr>g_cancelled := False\<rparr>)), fp4)) of
              (ok2, dest2, fp5) \<Rightarrow>
                (let truncated = (\<not> ok1 \<or> \<not> ok2);
                     G2 = G\<lparr>g_cancelled := False\<rparr>
                            \<lparr>lastExecCommands := decode_commands F dest1,
                             lastExecPushbuf := dest2\<rparr>
                 in if truncated then (0, G2)
                    else (ver, G2\<lparr>lastExecFilename := filename, lastExecVersion := ver\<rparr>))))"
    unfolding LoadReplay_def hdr Let_def prod.case ver fp1 r1 r2 e1 e2
    using good by simp
  then show ?thesis
    unfolding rc1 dest1 [symmetric]
    by (simp add: Let_def case_prod_beta)
qed

lemma LoadReplay_streams:
  assumes bytes: "file_contents F filename = bytes"
    and hb: "take (sizeof_Header F) bytes = hb"
    and ver: "header_version F hb = ver"
    and start: "(if ver \<le> 3 then 12 else length hb) = start"
    and d1: "sizeof_Command F * unat (read_u32 bytes start) = d1"
    and d2: "unat (read_u32 bytes (start + 4)) = d2"
    and good: "header_magic F hb = HEADER_MAGIC F" "\<not> ver > VERSION F" "\<not> ver < MIN_VERSION F"
    and s1: "stream_block bytes (start + 8) = Some (c1, p1)"
    and s2: "stream_block bytes p1 = Some (c2, p2)"
    and dest1: "write_dest (written_bytes F ver c1 d1)
                  (resize d1 (encode_commands F (lastExecCommands G))) = dest1"
    and dest2: "write_dest (written_bytes F ver c2 d2) (resize d2 (lastExecPushbuf G)) = dest2"
  shows "LoadReplay F filename G =
     (if reported_mismatch F ver c1 d1
      then (0, G\<lparr>g_cancelled := False, lastExecCommands := decode_commands F dest1,
                 lastExecPushbuf := resize d2 (lastExecPushbuf G)\<rparr>)
      else if reported_mismatch F ver c2 d2
      then (0, G\<lparr>g_cancelled := False, lastExecCommands := decode_commands F dest1,
                 lastExecPushbuf := dest2\<rparr>)
      else (ver, G\<lparr>g_cancelled := False, lastExecCommands := decode_commands F dest1,
                   lastExecPushbuf := dest2, lastExecFilename := filename,
                   lastExecVersion := ver\<rparr>))"
  unfolding LoadReplay_first_stream [OF bytes hb ver start d1 d2 good s1 dest1]
    ReadCompressed_block [OF s2] dest2
  by simp

lemma LoadReplay_bad:
  assumes "reported_bad_capture F (file_contents F filename)"
  shows "fst (LoadReplay F filename G) = 0
       \<and> lastExecFilename (snd (LoadReplay F filename G)) = lastExecFilename G
       \<and> lastExecVersion (snd (LoadReplay F filename G)) = lastExecVersion G"
proof -
  define bytes where "bytes = file_contents F filename"
  define hb where "hb = take (sizeof_Header F) bytes"
  define ver where "ver = header_version F hb"
  define start where "start = (if ver \<le> 3 then 12 else length hb)"
  define d1 where "d1 = sizeof_Command F * unat (read_u32 bytes start)"
  define d2 where "d2 = unat (read_u32 bytes (start + 4))"
  show ?thesis
  proof (cases "header_magic F hb \<noteq> HEADER_MAGIC F \<or> ver > VERSION F \<or> ver < MIN_VERSION F")
    case True
    then show ?thesis
      unfolding hb_def ver_def bytes_def by (simp add: LoadReplay_header_bad)
  next
    case False
    then have good: "header_magic F hb = HEADER_MAGIC F" "\<not> ver > VERSION F" "\<not> ver < MIN_VERSION F"
      by simp_all
    from False assms obtain c1 p1 where
      s1: "stream_block bytes (start + 8) = Some (c1, p1)"
      and mm: "reported_mismatch F ver c1 d1
               \<or> (case stream_block bytes p1 of None \<Rightarrow> False
                   | Some (c2, p2) \<Rightarrow> reported_mismatch F ver c2 d2)"
      unfolding reported_bad_capture_def Let_def bytes_def hb_def ver_def start_def d1_def d2_def
      by (auto split: option.splits)
    note first = LoadReplay_first_stream [OF bytes_def [symmetric] hb_def [symmetric]
        ver_def [symmetric] start_def [symmetric] d1_def [symmetric] d2_def [symmetric] good s1 refl]
    show ?thesis
    proof (cases "reported_mismatch F ver c1 d1")
      case True
      then show ?thesis unfolding first by simp
    next
      case nm: False
      with mm obtain c2 p2 where
        s2: "stream_block bytes p1 = Some (c2, p2)" and m2: "reported_mismatch F ver c2 d2"
        by (auto split: option.splits)
      from nm m2 show ?thesis
        unfolding first ReadCompressed_block [OF s2] by simp
    qed
  qed
qed

lemma mismatch_cases:
  "length_mismatch F ver c declared \<longleftrightarrow>
     reported_mismatch F ver c declared \<or> decompressed_length F ver c declared = None"
  by (auto simp: length_mismatch_def reported_mismatch_def split: option.splits)

lemma block_codec_reports:
  "\<not> ver < 5 \<Longrightarrow> length_mismatch F ver c declared = reported_mismatch F ver c declared"
  by (simp add: length_mismatch_def reported_mismatch_def decompressed_length_def)

lemma demo_fs_simps:
  "file_contents demo_fs ''legacy.ppdmp'' = legacy_capture"
  "file_contents demo_fs ''frame.ppdmp'' = demo_capture"
  "sizeof_Header demo_fs = 24"
  "header_magic demo_fs = take 8"
  "header_version demo_fs hb = read_u32 hb 8"
  "HEADER_MAGIC demo_fs = demo_magic"
  "VERSION demo_fs = 6"
  "MIN_VERSION demo_fs = 2"
  "sizeof_Command demo_fs = 12"
  "encode_commands demo_fs cmds = []"
  "decode_commands demo_fs bytes = []"
  "snappy_uncompress demo_fs c cap =
     (if cap < length c then ([], None) else (c, Some (length c)))"
  "ZSTD_decompress demo_fs c cap = (c, length c)"
  by (simp_all add: demo_fs_def)

lemma legacy_capture_fields:
  "length legacy_capture = 58"
  "length (take 24 legacy_capture) = 24"
  "take 8 legacy_capture = demo_magic"
  "read_u32 (take 24 legacy_capture) 8 = 4"
  "read_u32 legacy_capture 24 = 1"
  "read_u32 legacy_capture 28 = 4"
  "read_u32 legacy_capture 32 = 12"
  "read_u32 legacy_capture 48 = 6"
  by (simp_all add: legacy_capture_def demo_magic_def read_u32_def read_u8_def)

lemma legacy_blocks:
  "stream_block legacy_capture 32 = Some (legacy_stream1, 48)"
  "stream_block legacy_capture 48 = Some (legacy_stream2, 58)"
  by (simp_all add: stream_block_def legacy_capture_fields)
     (simp_all add: legacy_capture_def legacy_stream1_def legacy_stream2_def)

lemma legacy_lengths:
  "decompressed_length demo_fs 4 legacy_stream1 12 = Some 12"
  "decompressed_length demo_fs 4 legacy_stream2 4 = None"
  by (simp_all add: decompressed_length_def demo_fs_simps legacy_stream1_def legacy_stream2_def)

lemma legacy_load_eq:
  "legacy_load =
     (4, globals_init\<lparr>g_cancelled := False, lastExecCommands := [],
                      lastExecPushbuf := [0, 0, 0, 0], lastExecFilename := ''legacy.ppdmp'',
                      lastExecVersion := 4\<rparr>)"
proof -
  have w: "written_bytes demo_fs 4 legacy_stream2 4 = []"
    by (simp add: written_bytes_def demo_fs_simps legacy_stream2_def)
  have p: "write_dest [] (resize 4 (lastExecPushbuf globals_init)) = [0, 0, 0, 0]"
    by (simp add: write_dest_def resize_def globals_init_def numeral_eq_Suc)
  have s: "LoadReplay demo_fs ''legacy.ppdmp'' globals_init =
     (if reported_mismatch demo_fs 4 legacy_stream1 12
      then (0, globals_init\<lparr>g_cancelled := False, lastExecCommands := decode_commands demo_fs
                 (write_dest (written_bytes demo_fs 4 legacy_stream1 12)
                    (resize 12 (encode_commands demo_fs (lastExecCommands globals_init)))),
                 lastExecPushbuf := resize 4 (lastExecPushbuf globals_init)\<rparr>)
      else if reported_mismatch demo_fs 4 legacy_stream2 4
      then (0, globals_init\<lparr>g_cancelled := False, lastExecCommands := decode_commands demo_fs
                 (write_dest (written_bytes demo_fs 4 legacy_stream1 12)
                    (resize 12 (encode_commands demo_fs (lastExecCommands globals_init)))),
                 lastExecPushbuf := [0, 0, 0, 0]\<rparr>)
      else (4, globals_init\<lparr>g_cancelled := False, lastExecCommands := decode_commands demo_fs
                 (write_dest (written_bytes demo_fs 4 legacy_stream1 12)
                    (resize 12 (encode_commands demo_fs (lastExecCommands globals_init)))),
                   lastExecPushbuf := [0, 0, 0, 0], lastExecFilename := ''legacy.ppdmp'',
                   lastExecVersion := 4\<rparr>))"
    by (rule LoadReplay_streams [where bytes = legacy_capture and hb = "take 24 legacy_capture"
          and start = 24 and ?p1.0 = 48 and ?p2.0 = 58])
       (simp_all add: demo_fs_simps legacy_capture_fields legacy_blocks w p)
  show ?thesis
    unfolding legacy_load_def s
    by (simp add: reported_mismatch_def legacy_lengths demo_fs_simps)
qed

lemma legacy_capture_bad: "bad_capture demo_fs (file_contents demo_fs ''legacy.ppdmp'')"
  by (simp add: bad_capture_def Let_def demo_fs_simps legacy_capture_fields legacy_blocks
        length_mismatch_def legacy_lengths)

lemma demo_capture_bad: "reported_bad_capture demo_fs (file_contents demo_fs ''frame.ppdmp'')"
proof -
  have v: "read_u32 (take 24 demo_capture) 8 = 6"
    by (simp add: demo_capture_def read_u32_def read_u8_def)
  have n: "read_u32 demo_capture 24 = 1"
    by (simp add: demo_capture_def read_u32_def read_u8_def)
  have l: "length demo_capture = 49" "length (take 24 demo_capture) = 24"
    by (simp_all add: demo_capture_def)
  have b: "read_u32 demo_capture 32 = 5"
    by (simp add: demo_capture_def read_u32_def read_u8_def)
  have s: "stream_block demo_capture 32 = Some (take 5 (drop 36 demo_capture), 41)"
    by (simp add: stream_block_def b l)
  show ?thesis
    by (simp add: reported_bad_capture_def demo_fs_simps demo_magic_def Let_def v n l s
          reported_mismatch_def decompressed_length_def)
qed

text \<open>
  What the loader does reject: a capture with wrong magic bytes, a version outside
  \<open>[MIN_VERSION, VERSION]\<close>, or a stream for which the decompressor reports a length
  other than the declared one. \<open>LoadReplay\<close> returns 0, starts no thread and does not
  record the file as loaded; the entry point, called for this file with no replay thread
  running, returns \<open>Error\<close>. For the block codec every length mismatch is a reported one.
\<close>

lemma LoadReplay_rejects_reported_bad_capture:
  assumes "reported_bad_capture F (file_contents F filename)"
  shows "fst (LoadReplay F filename G) = 0
       \<and> replayThread (snd (LoadReplay F filename G)) = replayThread G
       \<and> lastExecFilename (snd (LoadReplay F filename G)) = lastExecFilename G
       \<and> (lastExecFilename G \<noteq> filename \<and> replayThread G = None \<longrightarrow>
            RunMountedReplay S F w filename G
              = Some (ReplayResult_Error, snd (LoadReplay F filename G)))"
proof -
  from LoadReplay_bad [OF assms, of G] have
    z: "fst (LoadReplay F filename G) = 0"
    and n: "lastExecFilename (snd (LoadReplay F filename G)) = lastExecFilename G"
    by simp_all
  have "RunMountedReplay S F w filename G
          = Some (ReplayResult_Error, snd (LoadReplay F filename G))"
    if "lastExecFilename G \<noteq> filename" "replayThread G = None"
    using that z by (simp add: RunMountedReplay_def case_prod_beta)
  with z n show ?thesis by simp
qed

lemma LoadReplay_rejects_demo_capture:
  "fst (LoadReplay demo_fs ''frame.ppdmp'' globals_init) = 0
   \<and> replayThread (snd (LoadReplay demo_fs ''frame.ppdmp'' globals_init)) = None
   \<and> RunMountedReplay demo_sys demo_fs [] ''frame.ppdmp'' globals_init
       = Some (ReplayResult_Error, snd (LoadReplay demo_fs ''frame.ppdmp'' globals_init))"
  using LoadReplay_rejects_reported_bad_capture [OF demo_capture_bad, of globals_init demo_sys "[]"]
  by (simp add: globals_init_def)

subsection \<open>Cancellation wakes the waiting replay thread\<close>

text \<open>
  Claim C9. For every operation: a replay thread that has posted it and waits for its
  completion returns from \<open>ExecuteOnMain\<close> as soon as \<open>Replay_Unload\<close> has set the
  cancellation flag and notified the finish condition, whatever else the main context
  did before or does after, and without the done flag ever being set. With neither flag
  set and nothing done by the main context it stays blocked; with the cancellation alone
  it returns 0 while \<open>g_opDone\<close> is still false. The wait predicate is the disjunction
  of the two flags.
\<close>

theorem finish_wait_unblocks_on_cancel:
  "(\<exists>r G'. ExecuteOnMain_thread opToExec G (pre @ Replay_Unload_cancel # post) = Some (r, G'))
   \<and> ExecuteOnMain_thread opToExec (G\<lparr>g_cancelled := False\<rparr>) [] = None
   \<and> ExecuteOnMain_thread opToExec (G\<lparr>g_cancelled := False\<rparr>) [Replay_Unload_cancel] =
       Some (0, G\<lparr>g_opToExec := opToExec, g_retVal := 0, g_opDone := False, g_cancelled := True\<rparr>)"
proof -
  obtain G' where "opFinishWait_wait (ExecuteOnMain_post opToExec G) (pre @ Replay_Unload_cancel # post) = Some G'"
    using opFinishWait_wait_cancel by blast
  then have "\<exists>r G'. ExecuteOnMain_thread opToExec G (pre @ Replay_Unload_cancel # post) = Some (r, G')"
    by (simp add: ExecuteOnMain_thread_def)
  moreover have "ExecuteOnMain_thread opToExec (G\<lparr>g_cancelled := False\<rparr>) [] = None"
    by (simp add: ExecuteOnMain_thread_def ExecuteOnMain_post_def)
  moreover have "ExecuteOnMain_thread opToExec (G\<lparr>g_cancelled := False\<rparr>) [Replay_Unload_cancel] =
       Some (0, G\<lparr>g_opToExec := opToExec, g_retVal := 0, g_opDone := False, g_cancelled := True\<rparr>)"
    by (simp add: ExecuteOnMain_thread_def ExecuteOnMain_post_def Replay_Unload_cancel_def)
  ultimately show ?thesis by blast
qed

subsection \<open>Facts about the replay thread and the entry point\<close>

lemma posted_append: "posted (a @ b) = posted a @ posted b"
proof (induction a)
  case Nil
  then show ?case by simp
next
  case (Cons e a)
  then show ?case by (cases e) simp_all
qed

lemma adds_mono: "adds P w w' \<Longrightarrow> (\<And>e. P e \<Longrightarrow> Q e) \<Longrightarrow> adds Q w w'"
  by (auto simp: adds_def list_all_iff)

lemma handler_event_run_event: "handler_event e \<Longrightarrow> run_event e"
  by (cases e) (auto simp: handler_event_def run_event_def)

lemma quiet_event_run_event: "quiet_event e \<Longrightarrow> run_event e"
  by (cases e) (auto simp: quiet_event_def run_event_def)

lemma posted_quiet: "list_all quiet_event new \<Longrightarrow> posted new = []"
proof (induction new)
  case Nil
  then show ?case by simp
next
  case (Cons e new)
  then show ?case by (cases e) (simp_all add: quiet_event_def)
qed

lemma posted_run_event:
  "list_all run_event new \<Longrightarrow>
     \<forall>opToExec\<in>set (posted new). op_type opToExec \<noteq> OpType_Done \<and> op_type opToExec \<noteq> OpType_None"
proof (induction new)
  case Nil
  then show ?case by simp
next
  case (Cons e new)
  then show ?case by (cases e) (simp_all add: run_event_def)
qed

lemma adds_drop: "adds P w w' \<Longrightarrow> w' = w @ drop (length w) w' \<and> list_all P (drop (length w) w')"
  by (auto simp: adds_def)

lemma drop_prefix: "x = w @ y \<Longrightarrow> drop (length w) x = y"
  by simp

lemma Extra_FreeAll_quiet: "adds quiet_event w (snd (Extra_FreeAll is extra w))"
proof (induction "is" arbitrary: extra w)
  case Nil
  then show ?case by simp
next
  case (Cons i "is")
  have "adds quiet_event w (snd (Extra_Free (extra ! i) w))"
    by (auto simp: Extra_Free_def quiet_event_def intro!: adds_app)
  then show ?case
    using Cons.IH by (auto split: prod.splits intro: adds_trans)
qed

lemma Slab_FreeAll_quiet: "adds quiet_event w (snd (Slab_FreeAll is slabs w))"
proof (induction "is" arbitrary: slabs w)
  case Nil
  then show ?case by simp
next
  case (Cons i "is")
  have "adds quiet_event w (snd (Slab_Free (slabs ! i) w))"
    by (auto simp: Slab_Free_def quiet_event_def intro!: adds_app)
  then show ?case
    using Cons.IH by (auto split: prod.splits intro: adds_trans)
qed

lemma DumpExecute_destroy_quiet: "adds quiet_event w (snd (DumpExecute_destroy D w))"
proof -
  have a: "adds quiet_event w (if execListBuf D \<noteq> 0 then w @ [Ev_Free (execListBuf D)] else w)"
    by (auto simp: quiet_event_def intro!: adds_app)
  have b: "adds quiet_event w0 (snd (Reset m w0))" for m w0
    using Slab_FreeAll_quiet [of w0 "[0..<SLAB_COUNT]" "bm_slabs m"]
          Extra_FreeAll_quiet [of "snd (Slab_FreeAll [0..<SLAB_COUNT] (bm_slabs m) w0)"
                                  "[0..<EXTRA_COUNT]" "bm_extra m"]
    by (auto simp: Reset_def case_prod_beta intro: adds_trans)
  show ?thesis
    using adds_trans [OF a b] by (simp add: DumpExecute_destroy_def Let_def case_prod_beta)
qed

lemma SubmitListEnd_adds: "adds run_event w (snd (SubmitListEnd S cancelled D w))"
proof -
  have s: "adds run_event w0 (SyncStall D0 w0)" for D0 w0
    using SyncStall_adds handler_event_run_event by (rule adds_mono)
  have "adds run_event w
          (SyncStall D0 (w @ [Ev_Write_U32 a b, Ev_Write_U32 c d]) @ [Ev_OnMain (mk_Operation OpType_ListSync x 0)])"
    for D0 a b c d x
  proof -
    have "adds run_event w (w @ [Ev_Write_U32 a b, Ev_Write_U32 c d])"
      by (rule adds_app) (simp_all add: run_event_def)
    then have "adds run_event w (SyncStall D0 (w @ [Ev_Write_U32 a b, Ev_Write_U32 c d]))"
      using s by (rule adds_trans)
    then show ?thesis
      by (rule adds_app) (simp add: run_event_def mk_Operation_def)
  qed
  then show ?thesis
    by (simp add: SubmitListEnd_def Let_def ExecuteOnMain_def)
qed

lemma Run_loop_adds: "adds run_event w (snd (snd (Run_loop S cancelled pushbuf cmds D w)))"
proof (induction cmds arbitrary: D w)
  case Nil
  then show ?case using SubmitListEnd_adds [of w S cancelled D] by (simp add: case_prod_beta)
next
  case (Cons cmd cmds)
  show ?case
  proof (cases cancelled)
    case True
    then show ?thesis using SubmitListEnd_adds [of w S cancelled D] by (simp add: case_prod_beta)
  next
    case False
    show ?thesis
    proof (cases "Run_switch S pushbuf cmd (cmds = []) D w")
      case None
      have "adds run_event w (w @ [Ev_ERROR_LOG ''Unsupported GE dump command''])"
        by (rule adds_app) (simp_all add: run_event_def)
      with None False show ?thesis by simp
    next
      case (Some r)
      obtain D' w' where r: "r = (D', w')" by (cases r)
      from Run_switch_adds [OF Some [unfolded r]] have "adds run_event w w'"
        using handler_event_run_event by (rule adds_mono)
      from adds_trans [OF this Cons.IH] Some r False show ?thesis by simp
    qed
  qed
qed

lemma Run_adds: "adds run_event w (snd (snd (Run S cancelled pushbuf cmds D w)))"
proof -
  have s: "adds run_event w0 (SyncStall D0 w0)" for D0 w0
    using SyncStall_adds handler_event_run_event by (rule adds_mono)
  have a: "adds run_event w (if gpu_present S then w @ [Ev_SetAddrTranslation 0x400] else w)"
    by (auto simp: run_event_def intro!: adds_app)
  have b: "adds run_event w
             (if resumeIndex D \<ge> 0
              then SyncStall D (if gpu_present S then w @ [Ev_SetAddrTranslation 0x400] else w)
              else (if gpu_present S then w @ [Ev_SetAddrTranslation 0x400] else w))"
    using a adds_trans [OF a s] by simp
  show ?thesis
    using adds_trans [OF b Run_loop_adds] by (simp add: Run_def Let_def)
qed

lemma replayThread_body_posted:
  "posted (drop (length w) (replayThread_body S cancelled pushbuf cmds ver w)) =
     posted (drop (length w) (snd (snd (Run S cancelled pushbuf cmds (DumpExecute_new ver) w))))
       @ [mk_Operation OpType_Done 0 0]"
proof -
  let ?R = "Run S cancelled pushbuf cmds (DumpExecute_new ver) w"
  let ?w1 = "snd (snd ?R)"
  let ?w2 = "?w1 @ [Ev_OnMain (mk_Operation OpType_Done 0 0)]"
  let ?wB = "snd (DumpExecute_destroy (fst (snd ?R)) ?w2)"
  have body: "replayThread_body S cancelled pushbuf cmds ver w = ?wB"
    by (simp add: replayThread_body_def case_prod_beta ExecuteOnMain_def)
  from Run_adds [of w S cancelled pushbuf cmds "DumpExecute_new ver"] obtain n1 where
    w1: "?w1 = w @ n1"
    unfolding adds_def by blast
  from DumpExecute_destroy_quiet [of ?w2 "fst (snd ?R)"] obtain n2 where
    wB: "?wB = ?w2 @ n2" and q: "list_all quiet_event n2"
    unfolding adds_def by blast
  have d1: "drop (length w) ?w1 = n1" using w1 by (rule drop_prefix)
  have "?w2 = w @ n1 @ [Ev_OnMain (mk_Operation OpType_Done 0 0)]"
    by (subst w1) simp
  with wB have "?wB = w @ n1 @ [Ev_OnMain (mk_Operation OpType_Done 0 0)] @ n2"
    by (simp only: append_assoc)
  then have "drop (length w) ?wB = n1 @ [Ev_OnMain (mk_Operation OpType_Done 0 0)] @ n2"
    by (rule drop_prefix)
  then have "posted (drop (length w) ?wB) = posted n1 @ [mk_Operation OpType_Done 0 0] @ posted n2"
    by (simp add: posted_append)
  moreover have "posted n2 = []" using q by (rule posted_quiet)
  ultimately show ?thesis unfolding body d1 by simp
qed

lemma Run_ops_types:
  "\<forall>opToExec\<in>set (Run_ops S G w). op_type opToExec \<noteq> OpType_Done \<and> op_type opToExec \<noteq> OpType_None"
  unfolding Run_ops_def using adds_drop [OF Run_adds] posted_run_event by blast

lemma RunMountedReplay_running:
  assumes "lastExecFilename G = filename" and "replayThread G = Some (opToExec # ops)"
    and "op_type opToExec \<noteq> OpType_Done" and "op_type opToExec \<noteq> OpType_None"
  shows "\<exists>G'. RunMountedReplay S F w filename G = Some (ReplayResult_Break, G')
            \<and> lastExecFilename G' = filename \<and> replayThread G' = Some ops"
  using assms
  by (cases "op_type opToExec")
     (simp_all add: RunMountedReplay_def Let_def ExecuteOnMain_post_def)

lemma RunMountedReplay_Done:
  assumes "lastExecFilename G = filename" and "replayThread G = Some (opToExec # ops)"
    and "op_type opToExec = OpType_Done"
  shows "\<exists>G'. RunMountedReplay S F w filename G = Some (ReplayResult_Done, G')
            \<and> lastExecFilename G' = filename \<and> replayThread G' = None"
  using assms
  by (simp add: RunMountedReplay_def Let_def ExecuteOnMain_post_def)

lemma RunMountedReplay_first:
  assumes "lastExecFilename G = filename" and "replayThread G = None"
    and "posted (drop (length w)
           (replayThread_body S (g_cancelled G) (lastExecPushbuf G) (lastExecCommands G)
              (lastExecVersion G) w)) = opToExec # ops"
    and "op_type opToExec \<noteq> OpType_Done" and "op_type opToExec \<noteq> OpType_None"
  shows "\<exists>G'. RunMountedReplay S F w filename G = Some (ReplayResult_Break, G')
            \<and> lastExecFilename G' = filename \<and> replayThread G' = Some ops"
  using assms
  by (cases "op_type opToExec")
     (auto simp: RunMountedReplay_def Let_def ExecuteOnMain_post_def)

lemma RunMountedReplay_first_Done:
  assumes "lastExecFilename G = filename" and "replayThread G = None"
    and "posted (drop (length w)
           (replayThread_body S (g_cancelled G) (lastExecPushbuf G) (lastExecCommands G)
              (lastExecVersion G) w)) = opToExec # ops"
    and "op_type opToExec = OpType_Done"
  shows "\<exists>G'. RunMountedReplay S F w filename G = Some (ReplayResult_Done, G')
            \<and> lastExecFilename G' = filename \<and> replayThread G' = None"
  using assms
  by (auto simp: RunMountedReplay_def Let_def ExecuteOnMain_post_def)

lemma entry_calls_running:
  assumes "lastExecFilename G = filename"
    and "replayThread G = Some (ops @ [dn])"
    and "op_type dn = OpType_Done"
    and "\<forall>opToExec\<in>set ops. op_type opToExec \<noteq> OpType_Done \<and> op_type opToExec \<noteq> OpType_None"
    and "length ws = length ops + 1"
  shows "\<exists>G'. entry_calls S F filename ws G
                 = Some (replicate (length ops) ReplayResult_Break @ [ReplayResult_Done], G')
             \<and> replayThread G' = None"
  using assms
proof (induction ops arbitrary: G ws)
  case Nil
  then obtain w where ws: "ws = [w]" by (cases ws) auto
  from RunMountedReplay_Done [of G filename dn "[]" S F w] Nil obtain G' where
    "RunMountedReplay S F w filename G = Some (ReplayResult_Done, G')" "replayThread G' = None"
    by auto
  then show ?case by (simp add: ws)
next
  case (Cons opToExec ops)
  then obtain w ws' where ws: "ws = w # ws'" and l: "length ws' = length ops + 1"
    by (cases ws) auto
  from Cons.prems have t: "op_type opToExec \<noteq> OpType_Done" "op_type opToExec \<noteq> OpType_None"
    by simp_all
  from RunMountedReplay_running [of G filename opToExec "ops @ [dn]" S F w] Cons.prems t
  obtain G1 where
    g1: "RunMountedReplay S F w filename G = Some (ReplayResult_Break, G1)"
    "lastExecFilename G1 = filename" "replayThread G1 = Some (ops @ [dn])"
    by auto
  from Cons.prems have rest: "\<forall>x\<in>set ops. op_type x \<noteq> OpType_Done \<and> op_type x \<noteq> OpType_None"
    by simp
  from Cons.IH [OF g1(2) g1(3) Cons.prems(3) rest l] obtain G' where
    "entry_calls S F filename ws' G1
       = Some (replicate (length ops) ReplayResult_Break @ [ReplayResult_Done], G')"
    "replayThread G' = None"
    by blast
  with g1 show ?case by (simp add: ws)
qed

lemma entry_calls_first:
  assumes "lastExecFilename G = filename" and "replayThread G = None"
    and "length ws = length (Run_ops S G w)"
  shows "\<exists>G'. entry_calls S F filename (w # ws) G
                 = Some (replicate (length (Run_ops S G w)) ReplayResult_Break @ [ReplayResult_Done], G')
             \<and> replayThread G' = None"
proof -
  let ?dn = "mk_Operation OpType_Done 0 0"
  have body: "posted (drop (length w)
           (replayThread_body S (g_cancelled G) (lastExecPushbuf G) (lastExecCommands G)
              (lastExecVersion G) w)) = Run_ops S G w @ [?dn]"
    unfolding Run_ops_def by (rule replayThread_body_posted)
  have dn: "op_type ?dn = OpType_Done" by (simp add: mk_Operation_def)
  show ?thesis
  proof (cases "Run_ops S G w")
    case Nil
    with body have b: "posted (drop (length w)
           (replayThread_body S (g_cancelled G) (lastExecPushbuf G) (lastExecCommands G)
              (lastExecVersion G) w)) = ?dn # []" by simp
    from RunMountedReplay_first_Done [OF assms(1) assms(2) b dn, of F] obtain G' where
      "RunMountedReplay S F w filename G = Some (ReplayResult_Done, G')" "replayThread G' = None"
      by blast
    with Nil assms(3) show ?thesis by simp
  next
    case (Cons opToExec ops)
    with body have b: "posted (drop (length w)
           (replayThread_body S (g_cancelled G) (lastExecPushbuf G) (lastExecCommands G)
              (lastExecVersion G) w)) = opToExec # (ops @ [?dn])" by simp
    from Run_ops_types [of S G w] Cons have
      t: "op_type opToExec \<noteq> OpType_Done" "op_type opToExec \<noteq> OpType_None"
      and rest: "\<forall>x\<in>set ops. op_type x \<noteq> OpType_Done \<and> op_type x \<noteq> OpType_None"
      by simp_all
    from RunMountedReplay_first [OF assms(1) assms(2) b t, of F] obtain G1 where
      g1: "RunMountedReplay S F w filename G = Some (ReplayResult_Break, G1)"
      "lastExecFilename G1 = filename" "replayThread G1 = Some (ops @ [?dn])"
      by blast
    from assms(3) Cons have l: "length ws = length ops + 1" by simp
    from entry_calls_running [OF g1(2) g1(3) dn rest l, of S F] obtain G' where
      "entry_calls S F filename ws G1
         = Some (replicate (length ops) ReplayResult_Break @ [ReplayResult_Done], G')"
      "replayThread G' = None"
      by blast
    with g1 Cons show ?thesis by simp
  qed
qed

lemma Run_ops_demo:
  "Run_ops demo_sys demo_globals [] = [mk_Operation OpType_EnqueueList 0x08800000 0x08800004]"
  by (simp add: Run_ops_def demo_globals_def globals_init_def demo_commands_def demo_pushbuf_def
        Run_demo_unsupported)

lemma legacy_run_eq:
  "map_option fst legacy_run = Some ReplayResult_Done"
proof -
  have g: "gpu_present demo_sys" by (simp add: demo_sys_def)
  have b: "posted (replayThread_body demo_sys False [0, 0, 0, 0] [] 4 []) =
             [mk_Operation OpType_Done 0 0]"
    using replayThread_body_posted
      [where w = "[]" and S = demo_sys and cancelled = False and pushbuf = "[0, 0, 0, 0]"
         and cmds = "[]" and ver = 4]
    by (simp add: Run_def Let_def DumpExecute_new_def SubmitListEnd_def g)
  have l: "LoadReplay demo_fs ''legacy.ppdmp'' globals_init = legacy_load"
    by (simp add: legacy_load_def)
  show ?thesis
    unfolding legacy_run_def RunMountedReplay_def l legacy_load_eq
    using b
    by (simp add: globals_init_def Let_def mk_Operation_def ExecuteOnMain_post_def)
qed

subsection \<open>Loading a capture whose stream is longer than declared\<close>

text \<open>
  Claim C6, at an input where the code breaks it. The capture \<open>legacy.ppdmp\<close> has
  format version 4 and valid magic bytes; it declares a pushbuffer of four bytes, and its
  second stream, the pushbuffer, decompresses to six. The legacy decompressor finds the
  output too large for the capacity and stores no length, \<open>real_size\<close> keeps the value
  \<open>sz\<close> it started with and \<open>ReadCompressed\<close> reports success. \<open>LoadReplay\<close> returns the
  version 4 and records the file as loaded, with the pushbuffer left as the four zero
  bytes of \<open>resize\<close>; the entry point starts the replay and returns \<open>Done\<close>, not \<open>Error\<close>.
\<close>

theorem LoadReplay_accepts_oversized_legacy_stream:
  "stream_block legacy_capture 48 = Some (legacy_stream2, 58)
   \<and> length_mismatch demo_fs 4 legacy_stream2 4
   \<and> fst legacy_load = 4
   \<and> lastExecFilename (snd legacy_load) = ''legacy.ppdmp''
   \<and> lastExecVersion (snd legacy_load) = 4
   \<and> lastExecPushbuf (snd legacy_load) = [0, 0, 0, 0]
   \<and> map_option fst legacy_run = Some ReplayResult_Done"
  by (simp add: legacy_blocks length_mismatch_def legacy_lengths legacy_load_eq legacy_run_eq)

subsection \<open>The result of the executor is dropped\<close>

text \<open>
  Claim C10. With the capture cached and no replay thread running, the thread started by
  the entry point hands to the main context the operations of \<open>Run\<close> and then \<open>Done\<close>,
  whatever \<open>Run\<close> returned. The caller, invoking the entry point once per operation,
  gets \<open>Break\<close> for each operation of \<open>Run\<close> and \<open>Done\<close> for the last invocation, after
  which no thread is left: \<open>Error\<close> is not among the results, also when \<open>Run\<close> returned
  \<open>Error\<close>.
\<close>

theorem replay_error_not_surfaced:
  assumes "lastExecFilename G = filename"
    and "replayThread G = None"
    and "length ws = length (Run_ops S G w)"
  shows "posted (drop (length w)
           (replayThread_body S (g_cancelled G) (lastExecPushbuf G) (lastExecCommands G)
              (lastExecVersion G) w))
           = Run_ops S G w @ [mk_Operation OpType_Done 0 0]
       \<and> (\<exists>G'. entry_calls S F filename (w # ws) G
                   = Some (replicate (length (Run_ops S G w)) ReplayResult_Break
                             @ [ReplayResult_Done], G')
               \<and> replayThread G' = None)"
proof -
  have "posted (drop (length w)
           (replayThread_body S (g_cancelled G) (lastExecPushbuf G) (lastExecCommands G)
              (lastExecVersion G) w))
           = Run_ops S G w @ [mk_Operation OpType_Done 0 0]"
    unfolding Run_ops_def by (rule replayThread_body_posted)
  with entry_calls_first [OF assms] show ?thesis by blast
qed

theorem replay_error_not_surfaced_witness:
  "fst (Run demo_sys (g_cancelled demo_globals) (lastExecPushbuf demo_globals)
          (lastExecCommands demo_globals) (DumpExecute_new (lastExecVersion demo_globals)) [])
     = ReplayResult_Error
   \<and> (\<exists>G'. entry_calls demo_sys demo_fs ''cached.ppdmp'' [[], []] demo_globals
               = Some ([ReplayResult_Break, ReplayResult_Done], G')
           \<and> replayThread G' = None)"
proof -
  have n: "lastExecFilename demo_globals = ''cached.ppdmp''" "replayThread demo_globals = None"
    by (simp_all add: demo_globals_def globals_init_def)
  have l: "length [[] :: world] = length (Run_ops demo_sys demo_globals [])"
    by (simp add: Run_ops_demo)
  have e: "fst (Run demo_sys (g_cancelled demo_globals) (lastExecPushbuf demo_globals)
          (lastExecCommands demo_globals) (DumpExecute_new (lastExecVersion demo_globals)) [])
     = ReplayResult_Error"
    by (simp add: demo_globals_def globals_init_def demo_commands_def demo_pushbuf_def
          Run_demo_unsupported)
  show ?thesis
    using replay_error_not_surfaced [OF n l, of demo_fs] e
    by (simp add: Run_ops_demo)
qed

end
